theory Spec2Isabelle
  imports Complex_Main "HOL-Library.AList"
begin

section \<open>Numbers, keys and the oracle\<close>

text \<open>
  The game is written in TypeScript/JavaScript. Its numbers are modelled as follows:
  cell indices and counters are \<open>int\<close>, geographic coordinates and oracle values are
  \<open>real\<close>. Rounding of IEEE doubles is not modelled; the quotient that the coordinate
  factory floors, whose floor can depend on the rounding, is a parameter.

  The oracle \<open>luck\<close> is imported from \<open>luck.ts\<close>, which is not among the sources; every
  definition that consults it takes it as a parameter of type \<open>luck_fn\<close>.
\<close>

type_synonym luck_fn = "string \<Rightarrow> real"

text \<open>Template literals and \<open>Array.prototype.toString\<close> render an integer in decimal,
  with a leading minus sign for negative values.\<close>

definition digit_char :: "nat \<Rightarrow> char" where
  "digit_char d = ''0123456789'' ! (d mod 10)"

function digits :: "nat \<Rightarrow> string" where
  "digits n = (if n < 10 then [digit_char n] else digits (n div 10) @ [digit_char (n mod 10)])"
  by pat_completeness auto
termination
  by (relation "measure id") auto

definition show_int :: "int \<Rightarrow> string" where
  "show_int k = (if k < 0 then CHR ''-'' # digits (nat (- k)) else digits (nat k))"

subsection \<open>Tunable gameplay parameters\<close>

definition TILE_DEGREES :: real where
  "TILE_DEGREES = 1 / 10000"

definition NEIGHBORHOOD_SIZE :: int where
  "NEIGHBORHOOD_SIZE = 8"

definition CACHE_SPAWN_PROBABILITY :: real where
  "CACHE_SPAWN_PROBABILITY = 1 / 10"

subsection \<open>Loops\<close>

text \<open>\<open>for (let i = lo; i <= hi; i++) body\<close> and \<open>for (let i = lo; i < hi; i++) body\<close>,
  threading the state the body updates.\<close>

function for_le :: "int \<Rightarrow> int \<Rightarrow> (int \<Rightarrow> 'a \<Rightarrow> 'a) \<Rightarrow> 'a \<Rightarrow> 'a" where
  "for_le i hi body acc = (if i \<le> hi then for_le (i + 1) hi body (body i acc) else acc)"
  by pat_completeness auto
termination
  by (relation "measure (\<lambda>(i, hi, body, acc). nat (hi + 1 - i))") auto

function for_lt :: "int \<Rightarrow> int \<Rightarrow> (int \<Rightarrow> 'a \<Rightarrow> 'a) \<Rightarrow> 'a \<Rightarrow> 'a" where
  "for_lt i hi body acc = (if i < hi then for_lt (i + 1) hi body (body i acc) else acc)"
  by pat_completeness auto
termination
  by (relation "measure (\<lambda>(i, hi, body, acc). nat (hi - i))") auto

section \<open>main.ts: caches keyed by cell, state kept in \<open>cacheState\<close>\<close>

record cacheRec =
  pointValue :: int
  coinCount :: int

text \<open>The module-level variables of \<open>main.ts\<close>. \<open>cacheState\<close> is the object used as a
  dictionary from cache keys to records.\<close>

record game =
  playerLocation :: "real \<times> real"
  playerPoints :: int
  playerCoins :: int
  cacheState :: "string \<rightharpoonup> cacheRec"

datatype error = TypeError | SyntaxError

definition latLngToCell :: "real \<Rightarrow> real \<Rightarrow> int \<times> int" where
  "latLngToCell lat lng = (\<lfloor>lat / TILE_DEGREES\<rfloor>, \<lfloor>lng / TILE_DEGREES\<rfloor>)"

text \<open>\<open>const cacheKey = `${i},${j}`\<close>\<close>

definition cacheKey :: "int \<Rightarrow> int \<Rightarrow> string" where
  "cacheKey i j = show_int i @ '','' @ show_int j"

text \<open>The record built when a cache is opened for the first time (lines 85--88):
  both fields come from the oracle, keyed by \<open>[i, j, tag].toString()\<close>.\<close>

definition initialRecord :: "luck_fn \<Rightarrow> int \<Rightarrow> int \<Rightarrow> cacheRec" where
  "initialRecord luck i j =
     \<lparr> pointValue = \<lfloor>luck (show_int i @ '','' @ show_int j @ '',initialValue'') * 100\<rfloor>,
       coinCount = \<lfloor>luck (show_int i @ '','' @ show_int j @ '',coinCount'') * 10\<rfloor> \<rparr>"

text \<open>What the popup callback of \<open>spawnCache(i, j)\<close> closes over: the key of the cache
  and the constants destructured from its record when the popup is built.\<close>

record popup =
  popupKey :: string
  popupPointValue :: int
  popupCoinCount :: int

text \<open>The callback given to \<open>bindPopup\<close>: it materialises the record if the store has
  none, then reads \<open>pointValue\<close> and \<open>coinCount\<close> from the store.\<close>

definition openPopup :: "luck_fn \<Rightarrow> int \<Rightarrow> int \<Rightarrow> game \<Rightarrow> popup \<times> game" where
  "openPopup luck i j g =
     (let g' = (case cacheState g (cacheKey i j) of
                  None \<Rightarrow> g\<lparr>cacheState := (cacheState g)(cacheKey i j \<mapsto> initialRecord luck i j)\<rparr>
                | Some r \<Rightarrow> g);
          r = (case cacheState g (cacheKey i j) of
                  None \<Rightarrow> initialRecord luck i j
                | Some r \<Rightarrow> r)
      in (\<lparr>popupKey = cacheKey i j, popupPointValue = pointValue r, popupCoinCount = coinCount r\<rparr>, g'))"

text \<open>The click handler of the collect button. Reading a field of a missing store entry
  would raise a \<open>TypeError\<close>.\<close>

definition collect :: "popup \<Rightarrow> game \<Rightarrow> error + game" where
  "collect p g =
     (case cacheState g (popupKey p) of
        None \<Rightarrow> Inl TypeError
      | Some r \<Rightarrow>
          if coinCount r > 0
          then Inr (g\<lparr>cacheState := (cacheState g)(popupKey p \<mapsto> r\<lparr>coinCount := coinCount r - 1\<rparr>),
                      playerCoins := playerCoins g + 1,
                      playerPoints := playerPoints g + popupPointValue p\<rparr>)
          else Inr g)"

text \<open>The click handler of the deposit button.\<close>

definition deposit :: "popup \<Rightarrow> game \<Rightarrow> error + game" where
  "deposit p g =
     (if playerCoins g > 0
      then (case cacheState g (popupKey p) of
              None \<Rightarrow> Inl TypeError
            | Some r \<Rightarrow>
                Inr (g\<lparr>cacheState := (cacheState g)(popupKey p \<mapsto> r\<lparr>coinCount := coinCount r + 1\<rparr>),
                        playerCoins := playerCoins g - 1\<rparr>))
      else Inr g)"

text \<open>One popup is open at a time: opening a cache's popup runs the callback and replaces
  the popup shown before; a click reaches the handlers of the popup that is open.\<close>

datatype event = OpenPopup int int | Collect | Deposit

fun step :: "luck_fn \<Rightarrow> event \<Rightarrow> game \<times> popup option \<Rightarrow> error + game \<times> popup option" where
  "step luck (OpenPopup i j) (g, cur) =
     (case openPopup luck i j g of (p, g') \<Rightarrow> Inr (g', Some p))"
| "step luck Collect (g, cur) =
     (case cur of
        None \<Rightarrow> Inr (g, cur)
      | Some p \<Rightarrow> (case collect p g of Inl e \<Rightarrow> Inl e | Inr g' \<Rightarrow> Inr (g', cur)))"
| "step luck Deposit (g, cur) =
     (case cur of
        None \<Rightarrow> Inr (g, cur)
      | Some p \<Rightarrow> (case deposit p g of Inl e \<Rightarrow> Inl e | Inr g' \<Rightarrow> Inr (g', cur)))"

fun run :: "luck_fn \<Rightarrow> event list \<Rightarrow> game \<times> popup option \<Rightarrow> error + game \<times> popup option" where
  "run luck [] s = Inr s"
| "run luck (e # es) s = (case step luck e s of Inl err \<Rightarrow> Inl err | Inr s' \<Rightarrow> run luck es s')"

text \<open>Repeated clicks on one button of an open popup.\<close>

fun collects :: "nat \<Rightarrow> popup \<Rightarrow> game \<Rightarrow> error + game" where
  "collects 0 p g = Inr g"
| "collects (Suc n) p g = (case collect p g of Inl e \<Rightarrow> Inl e | Inr g' \<Rightarrow> collects n p g')"

fun deposits :: "nat \<Rightarrow> popup \<Rightarrow> game \<Rightarrow> error + game" where
  "deposits 0 p g = Inr g"
| "deposits (Suc n) p g = (case deposit p g of Inl e \<Rightarrow> Inl e | Inr g' \<Rightarrow> deposits n p g')"

definition OAKES_CLASSROOM :: "real \<times> real" where
  "OAKES_CLASSROOM = (3698949379578401 / 100000000000000, - (12206277128548504 / 100000000000000))"

definition initial_game :: game where
  "initial_game = \<lparr> playerLocation = OAKES_CLASSROOM, playerPoints = 0, playerCoins = 0,
                     cacheState = Map.empty \<rparr>"

text \<open>The two nested loops of \<open>updateCaches\<close>, for a window of radius \<open>r\<close> around the cell
  \<open>(pi, pj)\<close>; the result lists the cells for which \<open>spawnCache\<close> is called, in call order.\<close>

definition scanWindow :: "luck_fn \<Rightarrow> int \<Rightarrow> int \<times> int \<Rightarrow> (int \<times> int) list" where
  "scanWindow luck r pc =
     for_le (fst pc - r) (fst pc + r)
       (\<lambda>i. for_le (snd pc - r) (snd pc + r)
          (\<lambda>j spawned.
             if luck (show_int i @ '','' @ show_int j) < CACHE_SPAWN_PROBABILITY
             then spawned @ [(i, j)] else spawned))
       []"

definition updateCaches :: "luck_fn \<Rightarrow> game \<Rightarrow> (int \<times> int) list" where
  "updateCaches luck g =
     scanWindow luck NEIGHBORHOOD_SIZE
       (latLngToCell (fst (playerLocation g)) (snd (playerLocation g)))"

definition movePlayer :: "luck_fn \<Rightarrow> real \<Rightarrow> real \<Rightarrow> game \<Rightarrow> game \<times> (int \<times> int) list" where
  "movePlayer luck latOffset lngOffset g =
     (let g' = g\<lparr>playerLocation := (fst (playerLocation g) + latOffset,
                                      snd (playerLocation g) + lngOffset)\<rparr>
      in (g', updateCaches luck g'))"

section \<open>example.ts: the scan around the origin\<close>

text \<open>The loops at the end of \<open>example.ts\<close> (the same loops close the TypeScript file of the
  unnamed sources): the upper bound of each loop is exclusive.\<close>

definition scan_example :: "luck_fn \<Rightarrow> (int \<times> int) list" where
  "scan_example luck =
     for_lt (- NEIGHBORHOOD_SIZE) NEIGHBORHOOD_SIZE
       (\<lambda>i. for_lt (- NEIGHBORHOOD_SIZE) NEIGHBORHOOD_SIZE
          (\<lambda>j spawned.
             if luck (show_int i @ '','' @ show_int j) < CACHE_SPAWN_PROBABILITY
             then spawned @ [(i, j)] else spawned))
       []"

section \<open>The JavaScript variant: caches keyed by location, Memento store, persistence\<close>

text \<open>This is the JavaScript file of the unnamed sources (with \<open>PlayerState\<close>,
  \<open>CacheMemento\<close>, \<open>saveState\<close> and \<open>loadState\<close>). Its caches sit at geographic points
  \<open>(lat, lng)\<close>, and its keys render those numbers. The rendering of a non-integral number
  is the language's own; it enters as a parameter of type \<open>num_fmt\<close>.\<close>

type_synonym num_fmt = "real \<Rightarrow> string"

subsection \<open>Flyweight factory for coordinates\<close>

record coordinate =
  coord_i :: int
  coord_j :: int

definition cellSize :: real where
  "cellSize = 1 / 10000"

text \<open>The factory divides a coordinate by \<open>cellSize\<close> and floors the quotient. The quotient
  is the one the language computes on its numbers, rounded as IEEE doubles are; it enters
  as a parameter of type \<open>js_quot\<close>, so nothing below depends on how it is rounded.\<close>

type_synonym js_quot = "real \<Rightarrow> real \<Rightarrow> real"

text \<open>\<open>CoordinateFactory.getCoordinate\<close>, with the private map \<open>coordinates\<close> passed in and
  returned. The key is \<open>`${i}:${j}`\<close>.\<close>

definition getCoordinate ::
  "js_quot \<Rightarrow> (string \<rightharpoonup> coordinate) \<Rightarrow> real \<Rightarrow> real \<Rightarrow> coordinate \<times> (string \<rightharpoonup> coordinate)" where
  "getCoordinate quot coordinates lat lng =
     (let i = \<lfloor>quot lat cellSize\<rfloor>;
          j = \<lfloor>quot lng cellSize\<rfloor>;
          key = show_int i @ '':'' @ show_int j
      in case coordinates key of
           None \<Rightarrow> (\<lparr>coord_i = i, coord_j = j\<rparr>, coordinates(key \<mapsto> \<lparr>coord_i = i, coord_j = j\<rparr>))
         | Some c \<Rightarrow> (c, coordinates))"

text \<open>The registry after a series of lookups, starting from the empty map the module creates.\<close>

fun lookups :: "js_quot \<Rightarrow> (real \<times> real) list \<Rightarrow> (string \<rightharpoonup> coordinate) \<Rightarrow> (string \<rightharpoonup> coordinate)" where
  "lookups quot [] coordinates = coordinates"
| "lookups quot (p # ps) coordinates = lookups quot ps (snd (getCoordinate quot coordinates (fst p) (snd p)))"

subsection \<open>Memento store\<close>

text \<open>\<open>CacheMemento\<close> wraps a \<open>Map\<close>, which keeps its entries in insertion order: setting a
  key that is present replaces its value in place, a new key goes to the end.\<close>

definition memento_saveState ::
  "string \<Rightarrow> cacheRec \<Rightarrow> (string \<times> cacheRec) list \<Rightarrow> (string \<times> cacheRec) list" where
  "memento_saveState key st cacheStates = AList.update key st cacheStates"

definition memento_getState :: "string \<Rightarrow> (string \<times> cacheRec) list \<Rightarrow> cacheRec option" where
  "memento_getState key cacheStates = map_of cacheStates key"

definition memento_clearStates :: "(string \<times> cacheRec) list" where
  "memento_clearStates = []"

subsection \<open>Caches and their popups\<close>

record game_js =
  js_location :: "real \<times> real"
  js_playerPoints :: int
  js_playerCoins :: int
  js_cacheStates :: "(string \<times> cacheRec) list"
  js_movementHistory :: "(real \<times> real) list"

definition initial_game_js :: game_js where
  "initial_game_js = \<lparr> js_location = OAKES_CLASSROOM, js_playerPoints = 0, js_playerCoins = 0,
                        js_cacheStates = [], js_movementHistory = [] \<rparr>"

text \<open>\<open>generateCoins\<close> reads \<open>Math.random()\<close>; the number drawn is the argument \<open>rnd\<close>.\<close>

definition generateCoins :: "real \<Rightarrow> int" where
  "generateCoins rnd = \<lfloor>rnd * 10\<rfloor> + 1"

text \<open>The record built when the store has no state for the cache (lines 148--151).\<close>

definition initialRecord_js :: "num_fmt \<Rightarrow> luck_fn \<Rightarrow> real \<Rightarrow> real \<Rightarrow> real \<Rightarrow> cacheRec" where
  "initialRecord_js numStr luck rnd lat lng =
     \<lparr> pointValue = \<lfloor>luck (numStr lat @ '','' @ numStr lng @ '',initialValue'') * 100\<rfloor>,
       coinCount = generateCoins rnd \<rparr>"

text \<open>The popup callback closes over the key, the object \<open>state\<close> (which is also the
  store's entry), and the constants \<open>pointValue\<close> and \<open>coinCount\<close> destructured from it once.\<close>

record popup_js =
  js_key :: string
  js_state :: cacheRec
  js_pointValue :: int
  js_coinCount :: int

definition openPopup_js ::
  "num_fmt \<Rightarrow> luck_fn \<Rightarrow> real \<Rightarrow> real \<Rightarrow> real \<Rightarrow> game_js \<Rightarrow> popup_js \<times> game_js" where
  "openPopup_js numStr luck rnd lat lng g =
     (let key = numStr lat @ '':'' @ numStr lng
      in case memento_getState key (js_cacheStates g) of
           None \<Rightarrow>
             (let st = initialRecord_js numStr luck rnd lat lng
              in (\<lparr>js_key = key, js_state = st, js_pointValue = pointValue st, js_coinCount = coinCount st\<rparr>,
                  g\<lparr>js_cacheStates := memento_saveState key st (js_cacheStates g)\<rparr>))
         | Some st \<Rightarrow>
             (\<lparr>js_key = key, js_state = st, js_pointValue = pointValue st, js_coinCount = coinCount st\<rparr>, g))"

text \<open>The collect handler tests and adds the constant \<open>coinCount\<close> of the closure.\<close>

definition collect_js :: "popup_js \<Rightarrow> game_js \<Rightarrow> popup_js \<times> game_js" where
  "collect_js p g =
     (if js_coinCount p > 0
      then (let st = (js_state p)\<lparr>coinCount := 0\<rparr>
            in (p\<lparr>js_state := st\<rparr>,
                g\<lparr>js_playerCoins := js_playerCoins g + js_coinCount p,
                  js_cacheStates := memento_saveState (js_key p) st (js_cacheStates g)\<rparr>))
      else (p, g))"

text \<open>The deposit handler reads \<open>state.coinCount\<close> and \<open>playerCoins\<close> as they are.\<close>

definition deposit_js :: "popup_js \<Rightarrow> game_js \<Rightarrow> popup_js \<times> game_js" where
  "deposit_js p g =
     (if js_playerCoins g > 0
      then (let st = (js_state p)\<lparr>coinCount := coinCount (js_state p) + js_playerCoins g\<rparr>
            in (p\<lparr>js_state := st\<rparr>,
                g\<lparr>js_playerCoins := 0,
                  js_cacheStates := memento_saveState (js_key p) st (js_cacheStates g)\<rparr>))
      else (p, g))"

text \<open>Events of this variant; opening a popup carries the number \<open>Math.random()\<close> would
  return if the callback asked for one.\<close>

datatype event_js = OpenPopup_js real real real | Collect_js | Deposit_js

fun step_js :: "num_fmt \<Rightarrow> luck_fn \<Rightarrow> event_js \<Rightarrow> game_js \<times> popup_js option \<Rightarrow> game_js \<times> popup_js option" where
  "step_js numStr luck (OpenPopup_js rnd lat lng) (g, cur) =
     (case openPopup_js numStr luck rnd lat lng g of (p, g') \<Rightarrow> (g', Some p))"
| "step_js numStr luck Collect_js (g, cur) =
     (case cur of None \<Rightarrow> (g, cur) | Some p \<Rightarrow> (case collect_js p g of (p', g') \<Rightarrow> (g', Some p')))"
| "step_js numStr luck Deposit_js (g, cur) =
     (case cur of None \<Rightarrow> (g, cur) | Some p \<Rightarrow> (case deposit_js p g of (p', g') \<Rightarrow> (g', Some p')))"

fun run_js :: "num_fmt \<Rightarrow> luck_fn \<Rightarrow> event_js list \<Rightarrow> game_js \<times> popup_js option \<Rightarrow> game_js \<times> popup_js option" where
  "run_js numStr luck [] s = s"
| "run_js numStr luck (e # es) s = run_js numStr luck es (step_js numStr luck e s)"

text \<open>\<open>Math.random()\<close> returns a number in \<open>[0, 1)\<close>.\<close>

fun rnd_ok :: "event_js \<Rightarrow> bool" where
  "rnd_ok (OpenPopup_js rnd lat lng) = (0 \<le> rnd \<and> rnd < 1)"
| "rnd_ok Collect_js = True"
| "rnd_ok Deposit_js = True"

text \<open>\<open>updateCaches\<close> of this variant: offsets from the player's location, upper bounds
  exclusive; the result lists the points for which \<open>spawnCache\<close> is called.\<close>

definition scanPoint :: "real \<times> real \<Rightarrow> int \<Rightarrow> int \<Rightarrow> real \<times> real" where
  "scanPoint loc i j = (fst loc + of_int i * TILE_DEGREES, snd loc + of_int j * TILE_DEGREES)"

definition updateCaches_js :: "num_fmt \<Rightarrow> luck_fn \<Rightarrow> game_js \<Rightarrow> (real \<times> real) list" where
  "updateCaches_js numStr luck g =
     for_lt (- NEIGHBORHOOD_SIZE) NEIGHBORHOOD_SIZE
       (\<lambda>i. for_lt (- NEIGHBORHOOD_SIZE) NEIGHBORHOOD_SIZE
          (\<lambda>j spawned.
             let lat = fst (scanPoint (js_location g) i j);
                 lng = snd (scanPoint (js_location g) i j)
             in if luck (numStr lat @ '','' @ numStr lng) < CACHE_SPAWN_PROBABILITY
                then spawned @ [(lat, lng)] else spawned))
       []"

subsection \<open>Persistence\<close>

text \<open>
  \<open>saveState\<close> writes \<open>JSON.stringify\<close> of an object with five fields to the slot
  \<open>gameState\<close> of \<open>localStorage\<close>; \<open>loadState\<close> reads the slot and destructures
  \<open>JSON.parse\<close> of it. The text layer is not modelled: the content of the slot is
  \<^item> \<open>NoItem\<close>: \<open>getItem\<close> returns \<open>null\<close> (or the empty string),
  \<^item> \<open>Unparsable\<close>: a text that \<open>JSON.parse\<close> rejects,
  \<^item> \<open>Parsed b\<close>: a text that parses to the object \<open>b\<close>. The fields
    \<open>playerLocation\<close>, \<open>cacheStates\<close> and \<open>movementHistory\<close> of \<open>b\<close> may be missing
    (\<open>None\<close>); a field that is present has the type \<open>saveState\<close> gives it.
\<close>

record blob =
  blob_playerLocation :: "(real \<times> real) option"
  blob_playerPoints :: int
  blob_playerCoins :: int
  blob_cacheStates :: "(string \<times> cacheRec) list option"
  blob_movementHistory :: "(real \<times> real) list option"

datatype stored = NoItem | Unparsable | Parsed blob

definition saveState :: "game_js \<Rightarrow> stored" where
  "saveState g =
     Parsed \<lparr> blob_playerLocation = Some (js_location g),
              blob_playerPoints = js_playerPoints g,
              blob_playerCoins = js_playerCoins g,
              blob_cacheStates = Some (js_cacheStates g),
              blob_movementHistory = Some (js_movementHistory g) \<rparr>"

text \<open>\<open>loadState\<close> has no exception handler: reading \<open>loc.lat\<close> of a missing location and
  calling \<open>history.map\<close> on a missing history raise a \<open>TypeError\<close>, \<open>JSON.parse\<close> raises a
  \<open>SyntaxError\<close>; a missing \<open>cacheStates\<close> is skipped by the test \<open>if (cacheStates)\<close>.
  An exception ends the load; the assignments made before it are not part of the result.\<close>

definition loadState :: "stored \<Rightarrow> game_js \<Rightarrow> error + game_js" where
  "loadState item g =
     (case item of
        NoItem \<Rightarrow> Inr g
      | Unparsable \<Rightarrow> Inl SyntaxError
      | Parsed b \<Rightarrow>
          (case blob_playerLocation b of
             None \<Rightarrow> Inl TypeError
           | Some loc \<Rightarrow>
               (let g1 = g\<lparr>js_location := (fst loc, snd loc),
                            js_playerPoints := blob_playerPoints b,
                            js_playerCoins := blob_playerCoins b,
                            js_cacheStates := memento_clearStates\<rparr>;
                    g2 = (case blob_cacheStates b of
                            None \<Rightarrow> g1
                          | Some entries \<Rightarrow>
                              g1\<lparr>js_cacheStates :=
                                    fold (\<lambda>(key, val). memento_saveState key val) entries
                                      (js_cacheStates g1)\<rparr>)
                in case blob_movementHistory b of
                     None \<Rightarrow> Inl TypeError
                   | Some history \<Rightarrow>
                       Inr (g2\<lparr>js_movementHistory := map (\<lambda>latlng. (fst latlng, snd latlng)) history\<rparr>))))"

section \<open>Properties of the rendering\<close>

lemma digit_char_inj: "a < 10 \<Longrightarrow> b < 10 \<Longrightarrow> digit_char a = digit_char b \<Longrightarrow> a = b"
proof -
  assume a: "a < 10" and b: "b < 10" and e: "digit_char a = digit_char b"
  have d: "distinct ''0123456789''" by simp
  have l: "length ''0123456789'' = 10" by simp
  from e a b have "''0123456789'' ! a = ''0123456789'' ! b"
    by (simp add: digit_char_def)
  with d l a b show "a = b"
    by (metis nth_eq_iff_index_eq)
qed

lemma digit_char_in: "digit_char d \<in> set ''0123456789''"
proof -
  have "d mod 10 < length ''0123456789''" by simp
  then show ?thesis unfolding digit_char_def by (rule nth_mem)
qed

lemma digits_ne: "digits n \<noteq> []"
  by (subst digits.simps) simp

lemma set_digits: "set (digits n) \<subseteq> set ''0123456789''"
proof (induction n rule: digits.induct)
  case (1 n)
  show ?case
  proof (cases "n < 10")
    case True
    then show ?thesis using digit_char_in [of n] by (subst digits.simps) simp
  next
    case False
    then show ?thesis using 1 digit_char_in [of "n mod 10"] by (subst digits.simps) simp
  qed
qed

lemma digits_no:
  assumes "c \<notin> set ''0123456789''"
  shows "c \<notin> set (digits n)"
  using assms set_digits [of n] by blast

lemma digits_inj: "digits n = digits m \<Longrightarrow> n = m"
proof (induction n arbitrary: m rule: digits.induct)
  case (1 n)
  show ?case
  proof (cases "n < 10")
    case True
    note n = this
    show ?thesis
    proof (cases "m < 10")
      case True
      with n 1(2) show ?thesis
        by (simp add: digits.simps [of n] digits.simps [of m] digit_char_inj)
    next
      case False
      with n 1(2) digits_ne [of "m div 10"] show ?thesis
        by (simp add: digits.simps [of n] digits.simps [of m])
    qed
  next
    case False
    note n = this
    show ?thesis
    proof (cases "m < 10")
      case True
      with n 1(2) digits_ne [of "n div 10"] show ?thesis
        by (simp add: digits.simps [of n] digits.simps [of m])
    next
      case False
      with n 1(2) have e: "digits (n div 10) = digits (m div 10)"
        and c: "digit_char (n mod 10) = digit_char (m mod 10)"
        by (simp_all add: digits.simps [of n] digits.simps [of m])
      from 1(1) [OF n e] have "n div 10 = m div 10" .
      moreover from c have "n mod 10 = m mod 10"
        by (intro digit_char_inj) simp_all
      ultimately show ?thesis
        by (metis div_mult_mod_eq)
    qed
  qed
qed

lemma show_int_inj: "show_int a = show_int b \<Longrightarrow> a = b"
proof -
  assume e: "show_int a = show_int b"
  have nm: "hd (digits n) \<noteq> CHR ''-''" for n
  proof -
    have "hd (digits n) \<in> set (digits n)" using digits_ne [of n] by (rule hd_in_set)
    moreover have "CHR ''-'' \<notin> set (digits n)" by (rule digits_no) simp
    ultimately show ?thesis by metis
  qed
  show "a = b"
  proof (cases "a < 0")
    case True
    note a = this
    show ?thesis
    proof (cases "b < 0")
      case True
      with a e have "digits (nat (- a)) = digits (nat (- b))" by (simp add: show_int_def)
      then have "nat (- a) = nat (- b)" by (rule digits_inj)
      with a True show ?thesis by simp
    next
      case False
      with a e have "CHR ''-'' # digits (nat (- a)) = digits (nat b)" by (simp add: show_int_def)
      then have "hd (digits (nat b)) = CHR ''-''" by (metis list.sel(1))
      with nm show ?thesis by blast
    qed
  next
    case False
    note a = this
    show ?thesis
    proof (cases "b < 0")
      case True
      with a e have "digits (nat a) = CHR ''-'' # digits (nat (- b))" by (simp add: show_int_def)
      then have "hd (digits (nat a)) = CHR ''-''" by (metis list.sel(1))
      with nm show ?thesis by blast
    next
      case False
      with a e have "digits (nat a) = digits (nat b)" by (simp add: show_int_def)
      then have "nat a = nat b" by (rule digits_inj)
      with a False show ?thesis by simp
    qed
  qed
qed

lemma show_int_no:
  assumes "c \<noteq> CHR ''-''" and "c \<notin> set ''0123456789''"
  shows "c \<notin> set (show_int k)"
  using digits_no [OF assms(2)] assms(1) by (simp add: show_int_def)

lemma split_at_sep:
  assumes "c \<notin> set xs" "c \<notin> set xs'" "xs @ c # ys = xs' @ c # ys'"
  shows "xs = xs' \<and> ys = ys'"
proof -
  have t: "takeWhile (\<lambda>x. x \<noteq> c) (zs @ c # ws) = zs" if "c \<notin> set zs" for zs ws
    using that by (induction zs) auto
  from assms(1) have "takeWhile (\<lambda>x. x \<noteq> c) (xs @ c # ys) = xs" by (rule t)
  moreover from assms(2) have "takeWhile (\<lambda>x. x \<noteq> c) (xs' @ c # ys') = xs'" by (rule t)
  ultimately have "xs = xs'" using assms(3) by simp
  with assms(3) show ?thesis by simp
qed

lemma cacheKey_inj: "cacheKey i j = cacheKey i' j' \<Longrightarrow> i = i' \<and> j = j'"
proof -
  assume e: "cacheKey i j = cacheKey i' j'"
  have a: "CHR '','' \<notin> set (show_int i)" by (rule show_int_no) simp_all
  have b: "CHR '','' \<notin> set (show_int i')" by (rule show_int_no) simp_all
  from e have "show_int i @ CHR '','' # show_int j = show_int i' @ CHR '','' # show_int j'"
    by (simp add: cacheKey_def)
  from split_at_sep [OF a b this] show ?thesis
    by (auto dest: show_int_inj)
qed

lemma coordKey_inj:
  "show_int i @ '':'' @ show_int j = show_int i' @ '':'' @ show_int j' \<Longrightarrow> i = i' \<and> j = j'"
proof -
  assume e: "show_int i @ '':'' @ show_int j = show_int i' @ '':'' @ show_int j'"
  have a: "CHR '':'' \<notin> set (show_int i)" by (rule show_int_no) simp_all
  have b: "CHR '':'' \<notin> set (show_int i')" by (rule show_int_no) simp_all
  from e have "show_int i @ CHR '':'' # show_int j = show_int i' @ CHR '':'' # show_int j'"
    by simp
  from split_at_sep [OF a b this] show ?thesis
    by (auto dest: show_int_inj)
qed

section \<open>The coordinate registry\<close>

lemma getCoordinate_hit:
  assumes "coordinates (show_int \<lfloor>quot lat cellSize\<rfloor> @ '':'' @ show_int \<lfloor>quot lng cellSize\<rfloor>) = Some c"
  shows "getCoordinate quot coordinates lat lng = (c, coordinates)"
  using assms by (simp add: getCoordinate_def Let_def)

lemma getCoordinate_miss:
  assumes "coordinates (show_int \<lfloor>quot lat cellSize\<rfloor> @ '':'' @ show_int \<lfloor>quot lng cellSize\<rfloor>) = None"
  shows "getCoordinate quot coordinates lat lng =
    (\<lparr>coord_i = \<lfloor>quot lat cellSize\<rfloor>, coord_j = \<lfloor>quot lng cellSize\<rfloor>\<rparr>,
     coordinates(show_int \<lfloor>quot lat cellSize\<rfloor> @ '':'' @ show_int \<lfloor>quot lng cellSize\<rfloor>
        \<mapsto> \<lparr>coord_i = \<lfloor>quot lat cellSize\<rfloor>, coord_j = \<lfloor>quot lng cellSize\<rfloor>\<rparr>))"
  using assms by (simp add: getCoordinate_def Let_def)

lemma getCoordinate_stored:
  "snd (getCoordinate quot coordinates lat lng)
      (show_int \<lfloor>quot lat cellSize\<rfloor> @ '':'' @ show_int \<lfloor>quot lng cellSize\<rfloor>)
     = Some (fst (getCoordinate quot coordinates lat lng))"
  by (simp add: getCoordinate_def Let_def split: option.splits)

lemma getCoordinate_grows:
  "coordinates k = Some c \<Longrightarrow> snd (getCoordinate quot coordinates lat lng) k = Some c"
  by (auto simp: getCoordinate_def Let_def split: option.splits)

lemma lookups_grow:
  "coordinates k = Some c \<Longrightarrow> lookups quot ps coordinates k = Some c"
proof (induction ps arbitrary: coordinates)
  case Nil
  then show ?case by simp
next
  case (Cons p ps)
  from Cons.prems have "snd (getCoordinate quot coordinates (fst p) (snd p)) k = Some c"
    by (rule getCoordinate_grows)
  then show ?case using Cons.IH by simp
qed

lemma lookups_append: "lookups quot (ps @ qs) coordinates = lookups quot qs (lookups quot ps coordinates)"
  by (induction ps arbitrary: coordinates) simp_all

text \<open>The registry after any lookups holds, under the key of each cell looked up, that cell,
  and nothing else.\<close>

lemma registry_fold:
  fixes K :: "'p \<Rightarrow> 'k" and C :: "'p \<Rightarrow> 'c"
  assumes "\<And>p q. K p = K q \<Longrightarrow> C p = C q"
  shows "fold (\<lambda>p R. case R (K p) of None \<Rightarrow> R(K p \<mapsto> C p) | Some c \<Rightarrow> R) ps R k = Some c \<longleftrightarrow>
     R k = Some c \<or> (R k = None \<and> (\<exists>p \<in> set ps. K p = k \<and> C p = c))"
proof (induction ps arbitrary: R)
  case Nil
  show ?case by simp
next
  case (Cons p ps)
  let ?f = "\<lambda>p (R :: 'k \<rightharpoonup> 'c). case R (K p) of None \<Rightarrow> R(K p \<mapsto> C p) | Some c \<Rightarrow> R"
  have unfold: "fold ?f (p # ps) R k = fold ?f ps (?f p R) k" by simp
  note ih = Cons.IH [of "?f p R"]
  show ?case
  proof (cases "R (K p)")
    case (Some d)
    then have f: "?f p R = R" by simp
    from Some have "K p \<noteq> k" if "R k = None" using that by auto
    then have "(R k = None \<and> (\<exists>q \<in> set (p # ps). K q = k \<and> C q = c))
        \<longleftrightarrow> (R k = None \<and> (\<exists>q \<in> set ps. K q = k \<and> C q = c))"
      by auto
    with ih f unfold show ?thesis by (simp only:)
  next
    case None
    then have f: "?f p R = R(K p \<mapsto> C p)" by simp
    show ?thesis
    proof (cases "k = K p")
      case True
      have same: "C q = C p" if "K q = k" for q
        using that True assms [of q p] by simp
      have "(\<exists>q \<in> set (p # ps). K q = k \<and> C q = c) \<longleftrightarrow> C p = c"
      proof
        assume "\<exists>q \<in> set (p # ps). K q = k \<and> C q = c"
        then obtain q where "K q = k" "C q = c" by blast
        with same show "C p = c" by simp
      next
        assume "C p = c"
        with True show "\<exists>q \<in> set (p # ps). K q = k \<and> C q = c" by simp
      qed
      moreover from True None have "R k = None" by simp
      moreover from True have "(R(K p \<mapsto> C p)) k = Some (C p)" by simp
      ultimately show ?thesis using ih f unfold by (simp only:) auto
    next
      case False
      then have "(\<exists>q \<in> set (p # ps). K q = k \<and> C q = c) \<longleftrightarrow> (\<exists>q \<in> set ps. K q = k \<and> C q = c)"
        by auto
      moreover from False have "(R(K p \<mapsto> C p)) k = R k" by simp
      ultimately show ?thesis using ih f unfold by (simp only:)
    qed
  qed
qed

lemma lookups_fold:
  "lookups quot ps coordinates =
     fold (\<lambda>p R. case R (show_int \<lfloor>quot (fst p) cellSize\<rfloor> @ '':'' @ show_int \<lfloor>quot (snd p) cellSize\<rfloor>) of
                   None \<Rightarrow> R(show_int \<lfloor>quot (fst p) cellSize\<rfloor> @ '':'' @ show_int \<lfloor>quot (snd p) cellSize\<rfloor>
                             \<mapsto> \<lparr>coord_i = \<lfloor>quot (fst p) cellSize\<rfloor>, coord_j = \<lfloor>quot (snd p) cellSize\<rfloor>\<rparr>)
                 | Some c \<Rightarrow> R) ps coordinates"
proof (induction ps arbitrary: coordinates)
  case Nil
  then show ?case by simp
next
  case (Cons p ps)
  have "snd (getCoordinate quot coordinates (fst p) (snd p)) =
    (case coordinates (show_int \<lfloor>quot (fst p) cellSize\<rfloor> @ '':'' @ show_int \<lfloor>quot (snd p) cellSize\<rfloor>) of
       None \<Rightarrow> coordinates(show_int \<lfloor>quot (fst p) cellSize\<rfloor> @ '':'' @ show_int \<lfloor>quot (snd p) cellSize\<rfloor>
                             \<mapsto> \<lparr>coord_i = \<lfloor>quot (fst p) cellSize\<rfloor>, coord_j = \<lfloor>quot (snd p) cellSize\<rfloor>\<rparr>)
     | Some c \<Rightarrow> coordinates)"
    by (simp add: getCoordinate_def Let_def split: option.splits)
  with Cons.IH show ?case by simp
qed

lemma lookups_entries:
  "lookups quot ps coordinates k = Some c \<longleftrightarrow>
     coordinates k = Some c
     \<or> (coordinates k = None
        \<and> (\<exists>p \<in> set ps. show_int \<lfloor>quot (fst p) cellSize\<rfloor> @ '':'' @ show_int \<lfloor>quot (snd p) cellSize\<rfloor> = k
               \<and> \<lparr>coord_i = \<lfloor>quot (fst p) cellSize\<rfloor>, coord_j = \<lfloor>quot (snd p) cellSize\<rfloor>\<rparr> = c))"
  unfolding lookups_fold
proof (rule registry_fold)
  fix p q :: "real \<times> real"
  assume "show_int \<lfloor>quot (fst p) cellSize\<rfloor> @ '':'' @ show_int \<lfloor>quot (snd p) cellSize\<rfloor>
    = show_int \<lfloor>quot (fst q) cellSize\<rfloor> @ '':'' @ show_int \<lfloor>quot (snd q) cellSize\<rfloor>"
  then have "\<lfloor>quot (fst p) cellSize\<rfloor> = \<lfloor>quot (fst q) cellSize\<rfloor> \<and> \<lfloor>quot (snd p) cellSize\<rfloor> = \<lfloor>quot (snd q) cellSize\<rfloor>"
    by (rule coordKey_inj)
  then show "\<lparr>coord_i = \<lfloor>quot (fst p) cellSize\<rfloor>, coord_j = \<lfloor>quot (snd p) cellSize\<rfloor>\<rparr>
    = \<lparr>coord_i = \<lfloor>quot (fst q) cellSize\<rfloor>, coord_j = \<lfloor>quot (snd q) cellSize\<rfloor>\<rparr>"
    by simp
qed

lemma lookups_from_empty:
  "fst (getCoordinate quot (lookups quot ps Map.empty) lat lng)
     = \<lparr>coord_i = \<lfloor>quot lat cellSize\<rfloor>, coord_j = \<lfloor>quot lng cellSize\<rfloor>\<rparr>"
proof (cases "lookups quot ps Map.empty (show_int \<lfloor>quot lat cellSize\<rfloor> @ '':'' @ show_int \<lfloor>quot lng cellSize\<rfloor>)")
  case None
  then show ?thesis
    using getCoordinate_miss [of "lookups quot ps Map.empty" quot lat lng] by simp
next
  case (Some c)
  then have "\<exists>p \<in> set ps. show_int \<lfloor>quot (fst p) cellSize\<rfloor> @ '':'' @ show_int \<lfloor>quot (snd p) cellSize\<rfloor>
         = show_int \<lfloor>quot lat cellSize\<rfloor> @ '':'' @ show_int \<lfloor>quot lng cellSize\<rfloor>
       \<and> \<lparr>coord_i = \<lfloor>quot (fst p) cellSize\<rfloor>, coord_j = \<lfloor>quot (snd p) cellSize\<rfloor>\<rparr> = c"
    by (simp only: lookups_entries) simp
  then obtain p where k: "show_int \<lfloor>quot (fst p) cellSize\<rfloor> @ '':'' @ show_int \<lfloor>quot (snd p) cellSize\<rfloor>
         = show_int \<lfloor>quot lat cellSize\<rfloor> @ '':'' @ show_int \<lfloor>quot lng cellSize\<rfloor>"
    and c: "\<lparr>coord_i = \<lfloor>quot (fst p) cellSize\<rfloor>, coord_j = \<lfloor>quot (snd p) cellSize\<rfloor>\<rparr> = c"
    by blast
  from coordKey_inj [OF k] c have "c = \<lparr>coord_i = \<lfloor>quot lat cellSize\<rfloor>, coord_j = \<lfloor>quot lng cellSize\<rfloor>\<rparr>"
    by simp
  with Some show ?thesis
    using getCoordinate_hit [of "lookups quot ps Map.empty" quot lat lng c] by simp
qed

text \<open>
  Claim C8. Any two locations whose quotients by the tile size floor to the same pair of
  indices get the same cell from the factory, whatever lookups happened before and in
  between, and the cell has exactly those indices. The cell comes from the registry: the
  first lookup stores it under the key of its indices, later lookups keep it there, and a
  lookup that finds an entry under that key returns this entry and leaves the registry as
  it is; only a lookup that finds none stores the cell. After any lookups the registry
  holds, under the key of each cell looked up, that cell, and nothing else.
\<close>

theorem getCoordinate_canonical:
  assumes "\<lfloor>quot lat cellSize\<rfloor> = \<lfloor>quot lat' cellSize\<rfloor>" and "\<lfloor>quot lng cellSize\<rfloor> = \<lfloor>quot lng' cellSize\<rfloor>"
  shows "fst (getCoordinate quot (lookups quot ps Map.empty) lat lng)
           = \<lparr>coord_i = \<lfloor>quot lat cellSize\<rfloor>, coord_j = \<lfloor>quot lng cellSize\<rfloor>\<rparr>
       \<and> fst (getCoordinate quot (lookups quot qs (snd (getCoordinate quot (lookups quot ps Map.empty) lat lng))) lat' lng')
           = fst (getCoordinate quot (lookups quot ps Map.empty) lat lng)
       \<and> snd (getCoordinate quot (lookups quot ps Map.empty) lat lng)
             (show_int \<lfloor>quot lat cellSize\<rfloor> @ '':'' @ show_int \<lfloor>quot lng cellSize\<rfloor>)
           = Some (fst (getCoordinate quot (lookups quot ps Map.empty) lat lng))
       \<and> lookups quot qs (snd (getCoordinate quot (lookups quot ps Map.empty) lat lng))
             (show_int \<lfloor>quot lat cellSize\<rfloor> @ '':'' @ show_int \<lfloor>quot lng cellSize\<rfloor>)
           = Some (fst (getCoordinate quot (lookups quot ps Map.empty) lat lng))
       \<and> getCoordinate quot (snd (getCoordinate quot (lookups quot ps Map.empty) lat lng)) lat' lng'
           = (fst (getCoordinate quot (lookups quot ps Map.empty) lat lng),
              snd (getCoordinate quot (lookups quot ps Map.empty) lat lng))
       \<and> (coordinates (show_int \<lfloor>quot lat cellSize\<rfloor> @ '':'' @ show_int \<lfloor>quot lng cellSize\<rfloor>) = Some c
            \<longrightarrow> getCoordinate quot coordinates lat' lng' = (c, coordinates))
       \<and> (coordinates (show_int \<lfloor>quot lat cellSize\<rfloor> @ '':'' @ show_int \<lfloor>quot lng cellSize\<rfloor>) = None
            \<longrightarrow> getCoordinate quot coordinates lat' lng'
                = (\<lparr>coord_i = \<lfloor>quot lat cellSize\<rfloor>, coord_j = \<lfloor>quot lng cellSize\<rfloor>\<rparr>,
                   coordinates(show_int \<lfloor>quot lat cellSize\<rfloor> @ '':'' @ show_int \<lfloor>quot lng cellSize\<rfloor>
                      \<mapsto> \<lparr>coord_i = \<lfloor>quot lat cellSize\<rfloor>, coord_j = \<lfloor>quot lng cellSize\<rfloor>\<rparr>)))
       \<and> (lookups quot ps Map.empty k = Some d \<longleftrightarrow>
            (\<exists>p \<in> set ps. show_int \<lfloor>quot (fst p) cellSize\<rfloor> @ '':'' @ show_int \<lfloor>quot (snd p) cellSize\<rfloor> = k
                \<and> \<lparr>coord_i = \<lfloor>quot (fst p) cellSize\<rfloor>, coord_j = \<lfloor>quot (snd p) cellSize\<rfloor>\<rparr> = d))"
proof -
  let ?R = "lookups quot ps Map.empty"
  let ?k = "show_int \<lfloor>quot lat cellSize\<rfloor> @ '':'' @ show_int \<lfloor>quot lng cellSize\<rfloor>"
  have k': "show_int \<lfloor>quot lat' cellSize\<rfloor> @ '':'' @ show_int \<lfloor>quot lng' cellSize\<rfloor> = ?k"
    using assms by simp
  have a: "fst (getCoordinate quot ?R lat lng) = \<lparr>coord_i = \<lfloor>quot lat cellSize\<rfloor>, coord_j = \<lfloor>quot lng cellSize\<rfloor>\<rparr>"
    by (rule lookups_from_empty)
  have "lookups quot qs (snd (getCoordinate quot ?R lat lng)) = lookups quot (ps @ (lat, lng) # qs) Map.empty"
    by (simp add: lookups_append)
  then have "fst (getCoordinate quot (lookups quot qs (snd (getCoordinate quot ?R lat lng))) lat' lng')
      = \<lparr>coord_i = \<lfloor>quot lat' cellSize\<rfloor>, coord_j = \<lfloor>quot lng' cellSize\<rfloor>\<rparr>"
    by (simp only: lookups_from_empty)
  with a assms have b: "fst (getCoordinate quot (lookups quot qs (snd (getCoordinate quot ?R lat lng))) lat' lng')
      = fst (getCoordinate quot ?R lat lng)"
    by simp
  have c: "snd (getCoordinate quot ?R lat lng) ?k = Some (fst (getCoordinate quot ?R lat lng))"
    by (rule getCoordinate_stored)
  from c have d: "lookups quot qs (snd (getCoordinate quot ?R lat lng)) ?k = Some (fst (getCoordinate quot ?R lat lng))"
    by (rule lookups_grow)
  from c k' have e: "getCoordinate quot (snd (getCoordinate quot ?R lat lng)) lat' lng'
      = (fst (getCoordinate quot ?R lat lng), snd (getCoordinate quot ?R lat lng))"
    using getCoordinate_hit [of "snd (getCoordinate quot ?R lat lng)" quot lat' lng' "fst (getCoordinate quot ?R lat lng)"]
    by simp
  have f: "getCoordinate quot coordinates lat' lng' = (c, coordinates)" if "coordinates ?k = Some c"
    using that k' getCoordinate_hit [of coordinates quot lat' lng' c] by simp
  have g: "getCoordinate quot coordinates lat' lng'
                = (\<lparr>coord_i = \<lfloor>quot lat cellSize\<rfloor>, coord_j = \<lfloor>quot lng cellSize\<rfloor>\<rparr>,
                   coordinates(?k \<mapsto> \<lparr>coord_i = \<lfloor>quot lat cellSize\<rfloor>, coord_j = \<lfloor>quot lng cellSize\<rfloor>\<rparr>))"
    if "coordinates ?k = None"
  proof -
    from that k' have "coordinates (show_int \<lfloor>quot lat' cellSize\<rfloor> @ '':'' @ show_int \<lfloor>quot lng' cellSize\<rfloor>) = None"
      by simp
    from getCoordinate_miss [of coordinates quot lat' lng'] this assms show ?thesis by simp
  qed
  have h: "lookups quot ps Map.empty k = Some d \<longleftrightarrow>
            (\<exists>p \<in> set ps. show_int \<lfloor>quot (fst p) cellSize\<rfloor> @ '':'' @ show_int \<lfloor>quot (snd p) cellSize\<rfloor> = k
                \<and> \<lparr>coord_i = \<lfloor>quot (fst p) cellSize\<rfloor>, coord_j = \<lfloor>quot (snd p) cellSize\<rfloor>\<rparr> = d)"
    by (simp add: lookups_entries)
  from a b c d e f g h show ?thesis by blast
qed


theorem getCoordinate_canonical_witness:
  "\<lfloor>(3 / 4000 :: real) / cellSize\<rfloor> = \<lfloor>(39 / 50000) / cellSize\<rfloor>
   \<and> \<lfloor>(- (1 / 800) :: real) / cellSize\<rfloor> = \<lfloor>(- (121 / 100000)) / cellSize\<rfloor>
   \<and> fst (getCoordinate (/) (lookups (/) [(1 / 20000, 1 / 20000)] Map.empty) (3 / 4000) (- (1 / 800)))
        = \<lparr>coord_i = 7, coord_j = - 13\<rparr>
   \<and> fst (getCoordinate (/)
        (lookups (/) [(3 / 20000, 3 / 20000)] (snd (getCoordinate (/) (lookups (/) [(1 / 20000, 1 / 20000)] Map.empty) (3 / 4000) (- (1 / 800)))))
        (39 / 50000) (- (121 / 100000)))
        = \<lparr>coord_i = 7, coord_j = - 13\<rparr>
   \<and> snd (getCoordinate (/) (lookups (/) [(1 / 20000, 1 / 20000)] Map.empty) (3 / 4000) (- (1 / 800)))
          (show_int 7 @ '':'' @ show_int (- 13))
        = Some \<lparr>coord_i = 7, coord_j = - 13\<rparr>
   \<and> [show_int 7 @ '':'' @ show_int (- 13) \<mapsto> \<lparr>coord_i = 7, coord_j = - 13\<rparr>]
          (show_int 7 @ '':'' @ show_int (- 13))
        = Some \<lparr>coord_i = 7, coord_j = - 13\<rparr>
   \<and> getCoordinate (/) [show_int 7 @ '':'' @ show_int (- 13) \<mapsto> \<lparr>coord_i = 7, coord_j = - 13\<rparr>]
          (39 / 50000) (- (121 / 100000))
        = (\<lparr>coord_i = 7, coord_j = - 13\<rparr>,
           [show_int 7 @ '':'' @ show_int (- 13) \<mapsto> \<lparr>coord_i = 7, coord_j = - 13\<rparr>])
   \<and> (Map.empty :: string \<rightharpoonup> coordinate) (show_int 7 @ '':'' @ show_int (- 13)) = None
   \<and> getCoordinate (/) Map.empty (39 / 50000) (- (121 / 100000))
        = (\<lparr>coord_i = 7, coord_j = - 13\<rparr>,
           [show_int 7 @ '':'' @ show_int (- 13) \<mapsto> \<lparr>coord_i = 7, coord_j = - 13\<rparr>])"
proof -
  have h1: "\<lfloor>(3 / 4000 :: real) / cellSize\<rfloor> = \<lfloor>(39 / 50000) / cellSize\<rfloor>"
    by (simp add: cellSize_def)
  have h2: "\<lfloor>(- (1 / 800) :: real) / cellSize\<rfloor> = \<lfloor>(- (121 / 100000)) / cellSize\<rfloor>"
    by (simp add: cellSize_def)
  have v1: "\<lfloor>(3 / 4000 :: real) / cellSize\<rfloor> = 7" by (simp add: cellSize_def)
  have v2: "\<lfloor>(- (1 / 800) :: real) / cellSize\<rfloor> = - 13" by (simp add: cellSize_def)
  note t = getCoordinate_canonical
    [where quot = "(/)" and lat = "3 / 4000" and lat' = "39 / 50000"
       and lng = "- (1 / 800)" and lng' = "- (121 / 100000)"
       and ps = "[(1 / 20000, 1 / 20000)]" and qs = "[(3 / 20000, 3 / 20000)]", OF h1 h2, unfolded v1 v2]
  have m: "[show_int 7 @ '':'' @ show_int (- 13) \<mapsto> \<lparr>coord_i = 7, coord_j = - 13\<rparr>]
          (show_int 7 @ '':'' @ show_int (- 13))
        = Some \<lparr>coord_i = 7, coord_j = - 13\<rparr>"
    by simp
  have e: "(Map.empty :: string \<rightharpoonup> coordinate) (show_int 7 @ '':'' @ show_int (- 13)) = None"
    by simp
  from t [where coordinates = "[show_int 7 @ '':'' @ show_int (- 13) \<mapsto> \<lparr>coord_i = 7, coord_j = - 13\<rparr>]"
            and c = "\<lparr>coord_i = 7, coord_j = - 13\<rparr>"] m
  have a: "fst (getCoordinate (/) (lookups (/) [(1 / 20000, 1 / 20000)] Map.empty) (3 / 4000) (- (1 / 800)))
        = \<lparr>coord_i = 7, coord_j = - 13\<rparr>"
    and b: "fst (getCoordinate (/)
        (lookups (/) [(3 / 20000, 3 / 20000)] (snd (getCoordinate (/) (lookups (/) [(1 / 20000, 1 / 20000)] Map.empty) (3 / 4000) (- (1 / 800)))))
        (39 / 50000) (- (121 / 100000)))
        = fst (getCoordinate (/) (lookups (/) [(1 / 20000, 1 / 20000)] Map.empty) (3 / 4000) (- (1 / 800)))"
    and c: "snd (getCoordinate (/) (lookups (/) [(1 / 20000, 1 / 20000)] Map.empty) (3 / 4000) (- (1 / 800)))
          (show_int 7 @ '':'' @ show_int (- 13))
        = Some (fst (getCoordinate (/) (lookups (/) [(1 / 20000, 1 / 20000)] Map.empty) (3 / 4000) (- (1 / 800))))"
    and d: "getCoordinate (/) [show_int 7 @ '':'' @ show_int (- 13) \<mapsto> \<lparr>coord_i = 7, coord_j = - 13\<rparr>]
          (39 / 50000) (- (121 / 100000))
        = (\<lparr>coord_i = 7, coord_j = - 13\<rparr>,
           [show_int 7 @ '':'' @ show_int (- 13) \<mapsto> \<lparr>coord_i = 7, coord_j = - 13\<rparr>])"
    by blast+
  from t [where coordinates = Map.empty] e
  have f: "getCoordinate (/) Map.empty (39 / 50000) (- (121 / 100000))
        = (\<lparr>coord_i = 7, coord_j = - 13\<rparr>,
           [show_int 7 @ '':'' @ show_int (- 13) \<mapsto> \<lparr>coord_i = 7, coord_j = - 13\<rparr>])"
    by blast
  from a b have b': "fst (getCoordinate (/)
        (lookups (/) [(3 / 20000, 3 / 20000)] (snd (getCoordinate (/) (lookups (/) [(1 / 20000, 1 / 20000)] Map.empty) (3 / 4000) (- (1 / 800)))))
        (39 / 50000) (- (121 / 100000)))
        = \<lparr>coord_i = 7, coord_j = - 13\<rparr>"
    by (simp only:)
  from a c have c': "snd (getCoordinate (/) (lookups (/) [(1 / 20000, 1 / 20000)] Map.empty) (3 / 4000) (- (1 / 800)))
          (show_int 7 @ '':'' @ show_int (- 13))
        = Some \<lparr>coord_i = 7, coord_j = - 13\<rparr>"
    by (simp only:)
  show ?thesis
    by (intro conjI) (fact h1 h2 a b' c' m d e f)+
qed

section \<open>Collecting and depositing\<close>

subsection \<open>Clicks in main.ts\<close>

lemma collect_positive:
  assumes "cacheState g (popupKey p) = Some r" and "0 < coinCount r"
  shows "collect p g =
    Inr (g\<lparr>cacheState := (cacheState g)(popupKey p \<mapsto> r\<lparr>coinCount := coinCount r - 1\<rparr>),
           playerCoins := playerCoins g + 1,
           playerPoints := playerPoints g + popupPointValue p\<rparr>)"
  using assms by (simp add: collect_def)

lemma collect_refused:
  assumes "cacheState g (popupKey p) = Some r" and "coinCount r \<le> 0"
  shows "collect p g = Inr g"
  using assms by (simp add: collect_def)

lemma deposit_positive:
  assumes "cacheState g (popupKey p) = Some r" and "0 < playerCoins g"
  shows "deposit p g =
    Inr (g\<lparr>cacheState := (cacheState g)(popupKey p \<mapsto> r\<lparr>coinCount := coinCount r + 1\<rparr>),
           playerCoins := playerCoins g - 1\<rparr>)"
  using assms by (simp add: deposit_def)

lemma deposit_refused: "playerCoins g \<le> 0 \<Longrightarrow> deposit p g = Inr g"
  by (simp add: deposit_def)

lemma collects_many:
  assumes "cacheState g (popupKey p) = Some r" and "int n \<le> coinCount r"
  shows "\<exists>g'. collects n p g = Inr g'
           \<and> cacheState g' = (cacheState g)(popupKey p \<mapsto> r\<lparr>coinCount := coinCount r - int n\<rparr>)
           \<and> playerCoins g' = playerCoins g + int n
           \<and> playerPoints g' = playerPoints g + int n * popupPointValue p
           \<and> playerLocation g' = playerLocation g"
  using assms
proof (induction n arbitrary: g r)
  case 0
  then show ?case by (simp add: fun_upd_idem)
next
  case (Suc n)
  let ?r = "r\<lparr>coinCount := coinCount r - 1\<rparr>"
  let ?g = "g\<lparr>cacheState := (cacheState g)(popupKey p \<mapsto> ?r),
              playerCoins := playerCoins g + 1,
              playerPoints := playerPoints g + popupPointValue p\<rparr>"
  from Suc.prems have c: "collect p g = Inr ?g"
    by (intro collect_positive) simp_all
  have "cacheState ?g (popupKey p) = Some ?r" by simp
  moreover from Suc.prems(2) have "int n \<le> coinCount ?r" by simp
  ultimately obtain g' where g': "collects n p ?g = Inr g'"
    "cacheState g' = (cacheState ?g)(popupKey p \<mapsto> ?r\<lparr>coinCount := coinCount ?r - int n\<rparr>)"
    "playerCoins g' = playerCoins ?g + int n"
    "playerPoints g' = playerPoints ?g + int n * popupPointValue p"
    "playerLocation g' = playerLocation ?g"
    using Suc.IH [of ?g ?r] by blast
  from c g'(1) have "collects (Suc n) p g = Inr g'" by simp
  moreover from g'(2) have "cacheState g' = (cacheState g)(popupKey p \<mapsto> r\<lparr>coinCount := coinCount r - int (Suc n)\<rparr>)"
    by (simp add: algebra_simps)
  moreover from g'(3) have "playerCoins g' = playerCoins g + int (Suc n)" by simp
  moreover from g'(4) have "playerPoints g' = playerPoints g + int (Suc n) * popupPointValue p"
    by (simp add: algebra_simps)
  moreover from g'(5) have "playerLocation g' = playerLocation g" by simp
  ultimately show ?case by blast
qed

lemma deposits_many:
  assumes "cacheState g (popupKey p) = Some r" and "int n \<le> playerCoins g"
  shows "\<exists>g'. deposits n p g = Inr g'
           \<and> cacheState g' = (cacheState g)(popupKey p \<mapsto> r\<lparr>coinCount := coinCount r + int n\<rparr>)
           \<and> playerCoins g' = playerCoins g - int n
           \<and> playerPoints g' = playerPoints g
           \<and> playerLocation g' = playerLocation g"
  using assms
proof (induction n arbitrary: g r)
  case 0
  then show ?case by (simp add: fun_upd_idem)
next
  case (Suc n)
  let ?r = "r\<lparr>coinCount := coinCount r + 1\<rparr>"
  let ?g = "g\<lparr>cacheState := (cacheState g)(popupKey p \<mapsto> ?r),
              playerCoins := playerCoins g - 1\<rparr>"
  from Suc.prems have c: "deposit p g = Inr ?g"
    by (intro deposit_positive) simp_all
  have "cacheState ?g (popupKey p) = Some ?r" by simp
  moreover from Suc.prems(2) have "int n \<le> playerCoins ?g" by simp
  ultimately obtain g' where g': "deposits n p ?g = Inr g'"
    "cacheState g' = (cacheState ?g)(popupKey p \<mapsto> ?r\<lparr>coinCount := coinCount ?r + int n\<rparr>)"
    "playerCoins g' = playerCoins ?g - int n"
    "playerPoints g' = playerPoints ?g"
    "playerLocation g' = playerLocation ?g"
    using Suc.IH [of ?g ?r] by blast
  from c g'(1) have "deposits (Suc n) p g = Inr g'" by simp
  moreover from g'(2) have "cacheState g' = (cacheState g)(popupKey p \<mapsto> r\<lparr>coinCount := coinCount r + int (Suc n)\<rparr>)"
    by (simp add: algebra_simps)
  moreover from g'(3) have "playerCoins g' = playerCoins g - int (Suc n)" by simp
  moreover from g'(4) have "playerPoints g' = playerPoints g" by simp
  moreover from g'(5) have "playerLocation g' = playerLocation g" by simp
  ultimately show ?case by blast
qed

lemma openPopup_entry:
  "cacheState (snd (openPopup luck i j g)) (cacheKey i j)
     = Some \<lparr>pointValue = popupPointValue (fst (openPopup luck i j g)),
             coinCount = popupCoinCount (fst (openPopup luck i j g))\<rparr>"
  by (simp add: openPopup_def Let_def split: option.splits)

lemma openPopup_key: "popupKey (fst (openPopup luck i j g)) = cacheKey i j"
  by (simp add: openPopup_def Let_def)

lemma initialRecord_nonneg:
  assumes "\<And>k. 0 \<le> luck k"
  shows "0 \<le> coinCount (initialRecord luck i j)"
  using assms by (simp add: initialRecord_def)

lemma step_keeps_entry:
  assumes "\<And>p. cur = Some p \<Longrightarrow> \<exists>r. cacheState g (popupKey p) = Some r \<and> pointValue r = popupPointValue p"
  shows "\<exists>g' cur'. step luck e (g, cur) = Inr (g', cur')
           \<and> (\<forall>p. cur' = Some p \<longrightarrow> (\<exists>r. cacheState g' (popupKey p) = Some r \<and> pointValue r = popupPointValue p))"
proof (cases e)
  case (OpenPopup i j)
  then show ?thesis
    by (simp add: openPopup_def Let_def split: option.splits)
next
  case Collect
  show ?thesis
  proof (cases cur)
    case None
    with Collect show ?thesis by simp
  next
    case (Some p)
    from assms [OF Some] obtain r where "cacheState g (popupKey p) = Some r" "pointValue r = popupPointValue p"
      by blast
    with Collect Some show ?thesis by (simp add: collect_def)
  qed
next
  case Deposit
  show ?thesis
  proof (cases cur)
    case None
    with Deposit show ?thesis by simp
  next
    case (Some p)
    from assms [OF Some] obtain r where "cacheState g (popupKey p) = Some r" "pointValue r = popupPointValue p"
      by blast
    with Deposit Some show ?thesis by (simp add: deposit_def)
  qed
qed

lemma step_keeps_nonneg:
  assumes "\<And>k. 0 \<le> luck k"
    and "step luck e (g, cur) = Inr (g', cur')"
    and "0 \<le> playerCoins g"
    and "\<And>k r. cacheState g k = Some r \<Longrightarrow> 0 \<le> coinCount r"
  shows "0 \<le> playerCoins g' \<and> (\<forall>k r. cacheState g' k = Some r \<longrightarrow> 0 \<le> coinCount r)"
proof (cases e)
  case (OpenPopup i j)
  with assms(2) have g': "g' = snd (openPopup luck i j g)"
    by (simp add: case_prod_beta)
  show ?thesis
  proof (cases "cacheState g (cacheKey i j)")
    case None
    with g' have "g' = g\<lparr>cacheState := (cacheState g)(cacheKey i j \<mapsto> initialRecord luck i j)\<rparr>"
      by (simp add: openPopup_def Let_def)
    with assms(3,4) initialRecord_nonneg [of luck i j, OF assms(1)] show ?thesis
      by auto
  next
    case (Some r)
    with g' have "g' = g" by (simp add: openPopup_def Let_def)
    with assms(3,4) show ?thesis by blast
  qed
next
  case Collect
  show ?thesis
  proof (cases cur)
    case None
    with Collect assms(2) have "g' = g" by simp
    with assms(3,4) show ?thesis by blast
  next
    case (Some p)
    show ?thesis
    proof (cases "cacheState g (popupKey p)")
      case None
      with Collect Some assms(2) show ?thesis by (simp add: collect_def)
    next
      case r: (Some r)
      show ?thesis
      proof (cases "0 < coinCount r")
        case True
        with Collect Some r assms(2)
        have "g' = g\<lparr>cacheState := (cacheState g)(popupKey p \<mapsto> r\<lparr>coinCount := coinCount r - 1\<rparr>),
                       playerCoins := playerCoins g + 1,
                       playerPoints := playerPoints g + popupPointValue p\<rparr>"
          by (simp add: collect_def)
        with True assms(3,4) show ?thesis by auto
      next
        case False
        with Collect Some r assms(2) have "g' = g" by (simp add: collect_def)
        with assms(3,4) show ?thesis by blast
      qed
    qed
  qed
next
  case Deposit
  show ?thesis
  proof (cases cur)
    case None
    with Deposit assms(2) have "g' = g" by simp
    with assms(3,4) show ?thesis by blast
  next
    case (Some p)
    show ?thesis
    proof (cases "0 < playerCoins g")
      case True
      note pos = this
      show ?thesis
      proof (cases "cacheState g (popupKey p)")
        case None
        with Deposit Some pos assms(2) show ?thesis by (simp add: deposit_def)
      next
        case r: (Some r)
        with Deposit Some pos assms(2)
        have "g' = g\<lparr>cacheState := (cacheState g)(popupKey p \<mapsto> r\<lparr>coinCount := coinCount r + 1\<rparr>),
                       playerCoins := playerCoins g - 1\<rparr>"
          by (simp add: deposit_def)
        moreover from assms(4) r have "0 \<le> coinCount r" by blast
        ultimately show ?thesis using pos assms(4) by auto
      qed
    next
      case False
      with Deposit Some assms(2) have "g' = g" by (simp add: deposit_def)
      with assms(3,4) show ?thesis by blast
    qed
  qed
qed

lemma run_keeps_entry:
  assumes "\<And>p. cur = Some p \<Longrightarrow> \<exists>r. cacheState g (popupKey p) = Some r \<and> pointValue r = popupPointValue p"
  shows "\<exists>g' cur'. run luck es (g, cur) = Inr (g', cur')
           \<and> (\<forall>p. cur' = Some p \<longrightarrow> (\<exists>r. cacheState g' (popupKey p) = Some r \<and> pointValue r = popupPointValue p))"
  using assms
proof (induction es arbitrary: g cur)
  case Nil
  then show ?case by simp
next
  case (Cons e es)
  from step_keeps_entry [of cur g luck e] Cons.prems
  obtain g1 cur1 where s: "step luck e (g, cur) = Inr (g1, cur1)"
    and k: "\<And>p. cur1 = Some p \<Longrightarrow> \<exists>r. cacheState g1 (popupKey p) = Some r \<and> pointValue r = popupPointValue p"
    by blast
  from Cons.IH [of cur1 g1] k s show ?case by simp
qed

lemma run_keeps_nonneg:
  assumes "\<And>k. 0 \<le> luck k"
    and "run luck es (g, cur) = Inr (g', cur')"
    and "0 \<le> playerCoins g"
    and "\<And>k r. cacheState g k = Some r \<Longrightarrow> 0 \<le> coinCount r"
  shows "0 \<le> playerCoins g' \<and> (\<forall>k r. cacheState g' k = Some r \<longrightarrow> 0 \<le> coinCount r)"
  using assms(2-)
proof (induction es arbitrary: g cur)
  case Nil
  then show ?case by simp
next
  case (Cons e es)
  from Cons.prems(1) obtain g1 cur1 where s: "step luck e (g, cur) = Inr (g1, cur1)"
    and r: "run luck es (g1, cur1) = Inr (g', cur')"
    by (auto split: sum.splits)
  from step_keeps_nonneg [OF assms(1) s Cons.prems(2)] Cons.prems(3)
  have "0 \<le> playerCoins g1" and "\<And>k r. cacheState g1 k = Some r \<Longrightarrow> 0 \<le> coinCount r"
    by blast+
  from Cons.IH [OF r this] show ?case .
qed

subsection \<open>Clicks in the JavaScript variant\<close>

lemma set_saveState:
  "e \<in> set (memento_saveState key st cacheStates) \<Longrightarrow> e = (key, st) \<or> e \<in> set cacheStates"
  unfolding memento_saveState_def
  by (induction cacheStates) (auto split: if_splits)

lemma getState_saveState:
  "memento_getState key (memento_saveState key st cacheStates) = Some st"
  by (simp add: memento_getState_def memento_saveState_def update_conv')

lemma generateCoins_range:
  assumes "0 \<le> rnd" and "rnd < 1"
  shows "1 \<le> generateCoins rnd \<and> generateCoins rnd \<le> 10"
proof -
  from assms(1) have "0 \<le> \<lfloor>rnd * 10\<rfloor>" by simp
  moreover from assms(2) have "\<lfloor>rnd * 10\<rfloor> < 10" by (simp add: floor_less_iff)
  ultimately show ?thesis by (simp add: generateCoins_def)
qed

lemma deposit_js_positive:
  assumes "0 < js_playerCoins g"
  shows "deposit_js p g =
    (p\<lparr>js_state := (js_state p)\<lparr>coinCount := coinCount (js_state p) + js_playerCoins g\<rparr>\<rparr>,
     g\<lparr>js_playerCoins := 0,
       js_cacheStates := memento_saveState (js_key p)
          ((js_state p)\<lparr>coinCount := coinCount (js_state p) + js_playerCoins g\<rparr>) (js_cacheStates g)\<rparr>)"
  using assms by (simp add: deposit_js_def Let_def)

lemma deposit_js_refused: "js_playerCoins g \<le> 0 \<Longrightarrow> deposit_js p g = (p, g)"
  by (simp add: deposit_js_def)

lemma step_js_keeps:
  assumes "rnd_ok e"
    and "step_js numStr luck e (g, cur) = (g', cur')"
    and "0 \<le> js_playerCoins g"
    and "\<And>k r. (k, r) \<in> set (js_cacheStates g) \<Longrightarrow> 0 \<le> coinCount r"
    and "\<And>p. cur = Some p \<Longrightarrow> 0 \<le> coinCount (js_state p)"
  shows "0 \<le> js_playerCoins g'
       \<and> (\<forall>k r. (k, r) \<in> set (js_cacheStates g') \<longrightarrow> 0 \<le> coinCount r)
       \<and> (\<forall>p. cur' = Some p \<longrightarrow> 0 \<le> coinCount (js_state p))"
proof (cases e)
  case (OpenPopup_js rnd lat lng)
  let ?key = "numStr lat @ '':'' @ numStr lng"
  show ?thesis
  proof (cases "memento_getState ?key (js_cacheStates g)")
    case None
    let ?st = "initialRecord_js numStr luck rnd lat lng"
    from OpenPopup_js assms(1) have "1 \<le> generateCoins rnd"
      using generateCoins_range [of rnd] by simp
    then have st: "0 \<le> coinCount ?st" by (simp add: initialRecord_js_def)
    from None OpenPopup_js assms(2)
    have g': "g' = g\<lparr>js_cacheStates := memento_saveState ?key ?st (js_cacheStates g)\<rparr>"
      and c': "cur' = Some \<lparr>js_key = ?key, js_state = ?st, js_pointValue = pointValue ?st, js_coinCount = coinCount ?st\<rparr>"
      by (auto simp: openPopup_js_def Let_def)
    have "0 \<le> coinCount r" if "(k, r) \<in> set (js_cacheStates g')" for k r
      using that g' st assms(4) set_saveState [of "(k, r)" ?key ?st "js_cacheStates g"] by auto
    with g' c' st assms(3) show ?thesis by auto
  next
    case (Some st)
    with OpenPopup_js assms(2)
    have g': "g' = g"
      and c': "cur' = Some \<lparr>js_key = ?key, js_state = st, js_pointValue = pointValue st, js_coinCount = coinCount st\<rparr>"
      by (auto simp: openPopup_js_def Let_def)
    from Some have "(?key, st) \<in> set (js_cacheStates g)"
      by (simp add: memento_getState_def map_of_SomeD)
    with assms(4) have "0 \<le> coinCount st" by blast
    with g' c' assms(3,4) show ?thesis by auto
  qed
next
  case Collect_js
  show ?thesis
  proof (cases cur)
    case None
    with Collect_js assms(2) have "g' = g" "cur' = None" by simp_all
    with assms(3,4) show ?thesis by auto
  next
    case (Some p)
    show ?thesis
    proof (cases "0 < js_coinCount p")
      case True
      let ?st = "(js_state p)\<lparr>coinCount := 0\<rparr>"
      from True Some Collect_js assms(2)
      have g': "g' = g\<lparr>js_playerCoins := js_playerCoins g + js_coinCount p,
                        js_cacheStates := memento_saveState (js_key p) ?st (js_cacheStates g)\<rparr>"
        and c': "cur' = Some (p\<lparr>js_state := ?st\<rparr>)"
        by (auto simp: collect_js_def Let_def)
      have "0 \<le> coinCount r" if "(k, r) \<in> set (js_cacheStates g')" for k r
        using that g' assms(4) set_saveState [of "(k, r)" "js_key p" ?st "js_cacheStates g"] by auto
      with g' c' True assms(3) show ?thesis by auto
    next
      case False
      with Some Collect_js assms(2) have "g' = g" "cur' = cur" by (auto simp: collect_js_def)
      with assms(3,4,5) show ?thesis by auto
    qed
  qed
next
  case Deposit_js
  show ?thesis
  proof (cases cur)
    case None
    with Deposit_js assms(2) have "g' = g" "cur' = None" by simp_all
    with assms(3,4) show ?thesis by auto
  next
    case (Some p)
    show ?thesis
    proof (cases "0 < js_playerCoins g")
      case True
      let ?st = "(js_state p)\<lparr>coinCount := coinCount (js_state p) + js_playerCoins g\<rparr>"
      from True Some Deposit_js assms(2)
      have g': "g' = g\<lparr>js_playerCoins := 0,
                        js_cacheStates := memento_saveState (js_key p) ?st (js_cacheStates g)\<rparr>"
        and c': "cur' = Some (p\<lparr>js_state := ?st\<rparr>)"
        by (auto simp: deposit_js_def Let_def)
      from assms(5) [OF Some] True have st: "0 \<le> coinCount ?st" by simp
      have "0 \<le> coinCount r" if "(k, r) \<in> set (js_cacheStates g')" for k r
        using that g' st assms(4) set_saveState [of "(k, r)" "js_key p" ?st "js_cacheStates g"] by auto
      with g' c' st show ?thesis by auto
    next
      case False
      with Some Deposit_js assms(2) have "g' = g" "cur' = cur" by (auto simp: deposit_js_def)
      with assms(3,4,5) show ?thesis by auto
    qed
  qed
qed

lemma run_js_keeps:
  assumes "\<And>e. e \<in> set es \<Longrightarrow> rnd_ok e"
    and "run_js numStr luck es (g, cur) = (g', cur')"
    and "0 \<le> js_playerCoins g"
    and "\<And>k r. (k, r) \<in> set (js_cacheStates g) \<Longrightarrow> 0 \<le> coinCount r"
    and "\<And>p. cur = Some p \<Longrightarrow> 0 \<le> coinCount (js_state p)"
  shows "0 \<le> js_playerCoins g'
       \<and> (\<forall>k r. (k, r) \<in> set (js_cacheStates g') \<longrightarrow> 0 \<le> coinCount r)"
  using assms
proof (induction es arbitrary: g cur)
  case Nil
  then show ?case by auto
next
  case (Cons e es)
  obtain g1 cur1 where s: "step_js numStr luck e (g, cur) = (g1, cur1)"
    by (cases "step_js numStr luck e (g, cur)")
  from Cons.prems(1) have e: "rnd_ok e" by simp
  from step_js_keeps [OF e s Cons.prems(3)] Cons.prems(4,5)
  have k: "0 \<le> js_playerCoins g1"
    "\<And>k r. (k, r) \<in> set (js_cacheStates g1) \<Longrightarrow> 0 \<le> coinCount r"
    "\<And>p. cur1 = Some p \<Longrightarrow> 0 \<le> coinCount (js_state p)"
    by blast+
  from Cons.prems(2) s have r: "run_js numStr luck es (g1, cur1) = (g', cur')" by simp
  from Cons.prems(1) have "\<And>e. e \<in> set es \<Longrightarrow> rnd_ok e" by simp
  from Cons.IH [OF this r k] show ?case .
qed

text \<open>
  Claim C4. A deposit moves coins from the wallet to the cache and keeps their sum. In
  \<open>main.ts\<close> a click deposits one coin, so \<open>n\<close> clicks with \<open>n\<close> at most the wallet
  add \<open>n\<close> to the cache's \<open>coinCount\<close> and take \<open>n\<close> from \<open>playerCoins\<close>. In the
  JavaScript variant a click deposits the whole wallet: the cache gains exactly what the
  wallet loses. With an empty wallet the click changes nothing, in both.
\<close>

theorem deposit_conservation:
  "(cacheState g (popupKey p) = Some r \<and> int n \<le> playerCoins g \<longrightarrow>
      (\<exists>g'. deposits n p g = Inr g'
         \<and> cacheState g' = (cacheState g)(popupKey p \<mapsto> r\<lparr>coinCount := coinCount r + int n\<rparr>)
         \<and> playerCoins g' = playerCoins g - int n
         \<and> playerPoints g' = playerPoints g))
   \<and> (playerCoins g0 = 0 \<longrightarrow> deposit p0 g0 = Inr g0)
   \<and> (memento_getState (js_key q) (js_cacheStates h) = Some s \<and> js_state q = s \<and> 0 < js_playerCoins h \<longrightarrow>
        memento_getState (js_key q) (js_cacheStates (snd (deposit_js q h)))
            = Some (s\<lparr>coinCount := coinCount s + js_playerCoins h\<rparr>)
         \<and> js_state (fst (deposit_js q h)) = s\<lparr>coinCount := coinCount s + js_playerCoins h\<rparr>
         \<and> js_playerCoins (snd (deposit_js q h)) = js_playerCoins h - js_playerCoins h
         \<and> js_playerPoints (snd (deposit_js q h)) = js_playerPoints h)
   \<and> (js_playerCoins h0 = 0 \<longrightarrow> deposit_js q0 h0 = (q0, h0))"
proof (intro conjI impI)
  assume "cacheState g (popupKey p) = Some r \<and> int n \<le> playerCoins g"
  then have "cacheState g (popupKey p) = Some r" and "int n \<le> playerCoins g" by simp_all
  from deposits_many [OF this]
  show "\<exists>g'. deposits n p g = Inr g'
         \<and> cacheState g' = (cacheState g)(popupKey p \<mapsto> r\<lparr>coinCount := coinCount r + int n\<rparr>)
         \<and> playerCoins g' = playerCoins g - int n
         \<and> playerPoints g' = playerPoints g"
    by blast
next
  assume "playerCoins g0 = 0"
  then show "deposit p0 g0 = Inr g0" by (simp add: deposit_refused)
next
  assume a: "memento_getState (js_key q) (js_cacheStates h) = Some s \<and> js_state q = s \<and> 0 < js_playerCoins h"
  then have pos: "0 < js_playerCoins h" and s: "js_state q = s" by simp_all
  note d = deposit_js_positive [OF pos, of q]
  show "memento_getState (js_key q) (js_cacheStates (snd (deposit_js q h)))
            = Some (s\<lparr>coinCount := coinCount s + js_playerCoins h\<rparr>)"
    by (simp add: d s getState_saveState)
  show "js_state (fst (deposit_js q h)) = s\<lparr>coinCount := coinCount s + js_playerCoins h\<rparr>"
    by (simp add: d s)
  show "js_playerCoins (snd (deposit_js q h)) = js_playerCoins h - js_playerCoins h"
    by (simp add: d)
  show "js_playerPoints (snd (deposit_js q h)) = js_playerPoints h"
    by (simp add: d)
next
  assume "js_playerCoins h0 = 0"
  then show "deposit_js q0 h0 = (q0, h0)" by (simp add: deposit_js_refused)
qed

theorem deposit_conservation_witness:
  "cacheState \<lparr>playerLocation = (0, 0), playerPoints = 7, playerCoins = 3,
               cacheState = [''0,0'' \<mapsto> \<lparr>pointValue = 50, coinCount = 5\<rparr>]\<rparr> ''0,0''
     = Some \<lparr>pointValue = 50, coinCount = 5\<rparr>
   \<and> (\<exists>g'. deposits 2 \<lparr>popupKey = ''0,0'', popupPointValue = 50, popupCoinCount = 5\<rparr>
              \<lparr>playerLocation = (0, 0), playerPoints = 7, playerCoins = 3,
               cacheState = [''0,0'' \<mapsto> \<lparr>pointValue = 50, coinCount = 5\<rparr>]\<rparr> = Inr g'
         \<and> cacheState g' ''0,0'' = Some \<lparr>pointValue = 50, coinCount = 7\<rparr>
         \<and> playerCoins g' = 1 \<and> playerPoints g' = 7)
   \<and> deposit \<lparr>popupKey = ''0,0'', popupPointValue = 50, popupCoinCount = 5\<rparr>
        \<lparr>playerLocation = (0, 0), playerPoints = 7, playerCoins = 0, cacheState = Map.empty\<rparr>
      = Inr \<lparr>playerLocation = (0, 0), playerPoints = 7, playerCoins = 0, cacheState = Map.empty\<rparr>
   \<and> memento_getState ''0:0''
        (js_cacheStates (snd (deposit_js
           \<lparr>js_key = ''0:0'', js_state = \<lparr>pointValue = 50, coinCount = 5\<rparr>, js_pointValue = 50, js_coinCount = 5\<rparr>
           \<lparr>js_location = (0, 0), js_playerPoints = 0, js_playerCoins = 4,
            js_cacheStates = [(''0:0'', \<lparr>pointValue = 50, coinCount = 5\<rparr>)], js_movementHistory = []\<rparr>)))
      = Some \<lparr>pointValue = 50, coinCount = 9\<rparr>
   \<and> js_playerCoins (snd (deposit_js
           \<lparr>js_key = ''0:0'', js_state = \<lparr>pointValue = 50, coinCount = 5\<rparr>, js_pointValue = 50, js_coinCount = 5\<rparr>
           \<lparr>js_location = (0, 0), js_playerPoints = 0, js_playerCoins = 4,
            js_cacheStates = [(''0:0'', \<lparr>pointValue = 50, coinCount = 5\<rparr>)], js_movementHistory = []\<rparr>)) = 0
   \<and> deposit_js
         \<lparr>js_key = ''0:0'', js_state = \<lparr>pointValue = 50, coinCount = 5\<rparr>, js_pointValue = 50, js_coinCount = 5\<rparr>
         \<lparr>js_location = (0, 0), js_playerPoints = 0, js_playerCoins = 0,
          js_cacheStates = [(''0:0'', \<lparr>pointValue = 50, coinCount = 5\<rparr>)], js_movementHistory = []\<rparr>
      = (\<lparr>js_key = ''0:0'', js_state = \<lparr>pointValue = 50, coinCount = 5\<rparr>, js_pointValue = 50, js_coinCount = 5\<rparr>,
         \<lparr>js_location = (0, 0), js_playerPoints = 0, js_playerCoins = 0,
          js_cacheStates = [(''0:0'', \<lparr>pointValue = 50, coinCount = 5\<rparr>)], js_movementHistory = []\<rparr>)"
  using deposit_conservation
    [of "\<lparr>playerLocation = (0, 0), playerPoints = 7, playerCoins = 3,
               cacheState = [''0,0'' \<mapsto> \<lparr>pointValue = 50, coinCount = 5\<rparr>]\<rparr>"
        "\<lparr>popupKey = ''0,0'', popupPointValue = 50, popupCoinCount = 5\<rparr>"
        "\<lparr>pointValue = 50, coinCount = 5\<rparr>"
        2
        "\<lparr>playerLocation = (0, 0), playerPoints = 7, playerCoins = 0, cacheState = Map.empty\<rparr>"
        "\<lparr>popupKey = ''0,0'', popupPointValue = 50, popupCoinCount = 5\<rparr>"
        "\<lparr>js_key = ''0:0'', js_state = \<lparr>pointValue = 50, coinCount = 5\<rparr>, js_pointValue = 50, js_coinCount = 5\<rparr>"
        "\<lparr>js_location = (0, 0), js_playerPoints = 0, js_playerCoins = 4,
            js_cacheStates = [(''0:0'', \<lparr>pointValue = 50, coinCount = 5\<rparr>)], js_movementHistory = []\<rparr>"
        "\<lparr>pointValue = 50, coinCount = 5\<rparr>"
        "\<lparr>js_location = (0, 0), js_playerPoints = 0, js_playerCoins = 0,
          js_cacheStates = [(''0:0'', \<lparr>pointValue = 50, coinCount = 5\<rparr>)], js_movementHistory = []\<rparr>"
        "\<lparr>js_key = ''0:0'', js_state = \<lparr>pointValue = 50, coinCount = 5\<rparr>, js_pointValue = 50, js_coinCount = 5\<rparr>"]
  by (auto simp: memento_getState_def)

text \<open>
  Claim C10. In \<open>main.ts\<close>, in every state reached from the initial one with a popup open,
  the popup's point value is the \<open>pointValue\<close> of its cache's record; \<open>k\<close> collects, with
  \<open>k\<close> at most the cache's \<open>coinCount\<close>, add \<open>k * pointValue\<close> to \<open>playerPoints\<close>; a deposit
  leaves \<open>playerPoints\<close> as it is.
\<close>

theorem collect_adds_pointValue:
  assumes "run luck es (initial_game, None) = Inr (g, Some p)"
  shows "\<exists>r. cacheState g (popupKey p) = Some r \<and> popupPointValue p = pointValue r
           \<and> (\<forall>k. int k \<le> coinCount r \<longrightarrow>
                 (\<exists>g'. collects k p g = Inr g'
                    \<and> playerPoints g' = playerPoints g + int k * pointValue r
                    \<and> cacheState g' (popupKey p) = Some (r\<lparr>coinCount := coinCount r - int k\<rparr>)))
           \<and> (\<exists>g'. deposit p g = Inr g' \<and> playerPoints g' = playerPoints g)"
proof -
  have "\<exists>g' cur'. run luck es (initial_game, None) = Inr (g', cur')
      \<and> (\<forall>p. cur' = Some p \<longrightarrow> (\<exists>r. cacheState g' (popupKey p) = Some r \<and> pointValue r = popupPointValue p))"
    by (rule run_keeps_entry) simp
  with assms obtain r where r: "cacheState g (popupKey p) = Some r" and v: "pointValue r = popupPointValue p"
    by auto
  have c: "\<exists>g'. collects k p g = Inr g'
                    \<and> playerPoints g' = playerPoints g + int k * pointValue r
                    \<and> cacheState g' (popupKey p) = Some (r\<lparr>coinCount := coinCount r - int k\<rparr>)"
    if "int k \<le> coinCount r" for k
    using collects_many [OF r that] v by auto
  have d: "\<exists>g'. deposit p g = Inr g' \<and> playerPoints g' = playerPoints g"
    using r by (simp add: deposit_def)
  from r v c d show ?thesis by auto
qed

theorem collect_adds_pointValue_witness:
  "\<exists>g p r g'. run (\<lambda>k. 1 / 2) [OpenPopup 0 0, Collect, Deposit] (initial_game, None) = Inr (g, Some p)
      \<and> cacheState g (popupKey p) = Some r \<and> pointValue r = 50 \<and> int 2 \<le> coinCount r
      \<and> collects 2 p g = Inr g'
      \<and> playerPoints g' = playerPoints g + 2 * 50"
proof -
  let ?p = "\<lparr>popupKey = cacheKey 0 0, popupPointValue = 50, popupCoinCount = 5\<rparr>"
  let ?g = "\<lparr>playerLocation = OAKES_CLASSROOM, playerPoints = 50, playerCoins = 0,
             cacheState = [cacheKey 0 0 \<mapsto> \<lparr>pointValue = 50, coinCount = 5\<rparr>]\<rparr>"
  have run: "run (\<lambda>k. 1 / 2) [OpenPopup 0 0, Collect, Deposit] (initial_game, None) = Inr (?g, Some ?p)"
    by (simp add: openPopup_def initialRecord_def initial_game_def collect_def deposit_def)
  from collect_adds_pointValue [OF run]
  obtain r where r: "cacheState ?g (popupKey ?p) = Some r" "popupPointValue ?p = pointValue r"
    and c: "\<And>k. int k \<le> coinCount r \<Longrightarrow> \<exists>g'. collects k ?p ?g = Inr g'
                    \<and> playerPoints g' = playerPoints ?g + int k * pointValue r"
    by blast
  from r have v: "pointValue r = 50" and n: "int 2 \<le> coinCount r" by auto
  from c [OF n] v obtain g' where "collects 2 ?p ?g = Inr g'"
    "playerPoints g' = playerPoints ?g + 2 * 50" by auto
  with run r(1) v n show ?thesis by blast
qed

text \<open>
  Whatever popups are opened and buttons clicked, starting from the initial state, no click
  of \<open>main.ts\<close> raises an error and the wallet and every cache's \<open>coinCount\<close> stay
  non-negative, in both variants. In \<open>main.ts\<close> a collect from a cache without coins and a
  deposit from an empty wallet return the state unchanged, and so does a deposit from an
  empty wallet in the JavaScript variant. For \<open>main.ts\<close> the oracle is taken to be
  non-negative; for the JavaScript variant every number drawn from \<open>Math.random()\<close> lies
  in \<open>[0, 1)\<close>.
\<close>

lemma counters_stay_nonneg:
  "((\<forall>k. 0 \<le> luck k) \<longrightarrow>
      (\<exists>g' cur'. run luck es (initial_game, None) = Inr (g', cur')
         \<and> 0 \<le> playerCoins g'
         \<and> (\<forall>k r. cacheState g' k = Some r \<longrightarrow> 0 \<le> coinCount r)))
   \<and> (cacheState g (popupKey p) = Some r \<and> coinCount r - 1 < 0 \<longrightarrow> collect p g = Inr g)
   \<and> (playerCoins g - 1 < 0 \<longrightarrow> deposit p g = Inr g)
   \<and> ((\<forall>e \<in> set js. rnd_ok e) \<longrightarrow>
        0 \<le> js_playerCoins (fst (run_js numStr luck' js (initial_game_js, None)))
        \<and> (\<forall>k r. (k, r) \<in> set (js_cacheStates (fst (run_js numStr luck' js (initial_game_js, None))))
              \<longrightarrow> 0 \<le> coinCount r))
   \<and> (js_playerCoins h \<le> 0 \<longrightarrow> deposit_js q h = (q, h))"
proof (intro conjI impI)
  assume l: "\<forall>k. 0 \<le> luck k"
  have "\<exists>g' cur'. run luck es (initial_game, None) = Inr (g', cur')
      \<and> (\<forall>p. cur' = Some p \<longrightarrow> (\<exists>r. cacheState g' (popupKey p) = Some r \<and> pointValue r = popupPointValue p))"
    by (rule run_keeps_entry) simp
  then obtain g' cur' where r: "run luck es (initial_game, None) = Inr (g', cur')" by blast
  have "0 \<le> playerCoins g' \<and> (\<forall>k r. cacheState g' k = Some r \<longrightarrow> 0 \<le> coinCount r)"
    using l by (intro run_keeps_nonneg [OF _ r]) (simp_all add: initial_game_def)
  with r show "\<exists>g' cur'. run luck es (initial_game, None) = Inr (g', cur')
         \<and> 0 \<le> playerCoins g'
         \<and> (\<forall>k r. cacheState g' k = Some r \<longrightarrow> 0 \<le> coinCount r)"
    by blast
next
  assume "cacheState g (popupKey p) = Some r \<and> coinCount r - 1 < 0"
  then show "collect p g = Inr g" by (simp add: collect_def)
next
  assume "playerCoins g - 1 < 0"
  then show "deposit p g = Inr g" by (simp add: deposit_def)
next
  assume ok: "\<forall>e \<in> set js. rnd_ok e"
  obtain h' cur' where r: "run_js numStr luck' js (initial_game_js, None) = (h', cur')"
    by (cases "run_js numStr luck' js (initial_game_js, None)")
  have k: "0 \<le> js_playerCoins h' \<and> (\<forall>k r. (k, r) \<in> set (js_cacheStates h') \<longrightarrow> 0 \<le> coinCount r)"
    using ok by (intro run_js_keeps [OF _ r]) (simp_all add: initial_game_js_def)
  from k r show "0 \<le> js_playerCoins (fst (run_js numStr luck' js (initial_game_js, None)))" by simp
  from k r show "\<forall>k r. (k, r) \<in> set (js_cacheStates (fst (run_js numStr luck' js (initial_game_js, None))))
              \<longrightarrow> 0 \<le> coinCount r" by simp
next
  assume "js_playerCoins h \<le> 0"
  then show "deposit_js q h = (q, h)" by (rule deposit_js_refused)
qed

section \<open>The initial record and the stale counter\<close>

lemma openPopup_fresh:
  assumes "cacheState g (cacheKey i j) = None"
  shows "openPopup luck i j g =
    (\<lparr>popupKey = cacheKey i j, popupPointValue = pointValue (initialRecord luck i j),
      popupCoinCount = coinCount (initialRecord luck i j)\<rparr>,
     g\<lparr>cacheState := (cacheState g)(cacheKey i j \<mapsto> initialRecord luck i j)\<rparr>)"
  using assms by (simp add: openPopup_def Let_def)

lemma openPopup_js_fresh:
  assumes "memento_getState (numStr lat @ '':'' @ numStr lng) (js_cacheStates h) = None"
  shows "openPopup_js numStr luck rnd lat lng h =
    (\<lparr>js_key = numStr lat @ '':'' @ numStr lng,
      js_state = initialRecord_js numStr luck rnd lat lng,
      js_pointValue = pointValue (initialRecord_js numStr luck rnd lat lng),
      js_coinCount = coinCount (initialRecord_js numStr luck rnd lat lng)\<rparr>,
     h\<lparr>js_cacheStates := memento_saveState (numStr lat @ '':'' @ numStr lng)
          (initialRecord_js numStr luck rnd lat lng) (js_cacheStates h)\<rparr>)"
  using assms by (simp add: openPopup_js_def Let_def)

lemma openPopup_js_again:
  "fst (openPopup_js numStr luck rnd' lat lng (snd (openPopup_js numStr luck rnd lat lng h)))
     = fst (openPopup_js numStr luck rnd lat lng h)"
proof (cases "memento_getState (numStr lat @ '':'' @ numStr lng) (js_cacheStates h)")
  case None
  then show ?thesis
    by (simp add: openPopup_js_fresh) (simp add: openPopup_js_def Let_def getState_saveState)
next
  case (Some st)
  then show ?thesis by (simp add: openPopup_js_def)
qed

text \<open>
  Claim C1, as stated, fails in the JavaScript variant: with an empty store, the record built
  for the cache at \<open>(0, 0)\<close> has \<open>coinCount = 1\<close> when \<open>Math.random()\<close> returns \<open>0\<close> and
  \<open>coinCount = 6\<close> when it returns \<open>0.5\<close>.
\<close>

theorem initial_coinCount_js_counterexample:
  "js_coinCount (fst (openPopup_js (\<lambda>x. show_int \<lfloor>x\<rfloor>) (\<lambda>k. 1 / 2) 0 0 0 initial_game_js)) = 1
   \<and> js_coinCount (fst (openPopup_js (\<lambda>x. show_int \<lfloor>x\<rfloor>) (\<lambda>k. 1 / 2) (1 / 2) 0 0 initial_game_js)) = 6
   \<and> memento_getState (show_int \<lfloor>0 :: real\<rfloor> @ '':'' @ show_int \<lfloor>0 :: real\<rfloor>) (js_cacheStates initial_game_js) = None"
  by (simp add: openPopup_js_def initial_game_js_def memento_getState_def initialRecord_js_def
      generateCoins_def Let_def)

text \<open>
  Claim C1, amended. For a cell without an entry in the store, \<open>main.ts\<close> builds the same
  record in every state: both fields come from the oracle and the cell's indices alone. In
  the JavaScript variant the \<open>pointValue\<close> of the record is the same in every state and for
  every draw, while its \<open>coinCount\<close> is \<open>generateCoins()\<close>, a function of the number drawn;
  once built, the record is in the store and opening the cache again returns it whatever
  is drawn.
\<close>

theorem initial_record_determinism:
  "(cacheState g (cacheKey i j) = None \<and> cacheState g' (cacheKey i j) = None \<longrightarrow>
      fst (openPopup luck i j g) = fst (openPopup luck i j g')
      \<and> popupPointValue (fst (openPopup luck i j g)) = pointValue (initialRecord luck i j)
      \<and> popupCoinCount (fst (openPopup luck i j g)) = coinCount (initialRecord luck i j)
      \<and> cacheState (snd (openPopup luck i j g)) (cacheKey i j) = Some (initialRecord luck i j))
   \<and> (memento_getState (numStr lat @ '':'' @ numStr lng) (js_cacheStates h) = None
       \<and> memento_getState (numStr lat @ '':'' @ numStr lng) (js_cacheStates h') = None \<longrightarrow>
      js_pointValue (fst (openPopup_js numStr luck rnd lat lng h))
        = js_pointValue (fst (openPopup_js numStr luck rnd' lat lng h'))
      \<and> js_coinCount (fst (openPopup_js numStr luck rnd lat lng h)) = generateCoins rnd
      \<and> js_coinCount (fst (openPopup_js numStr luck rnd' lat lng h')) = generateCoins rnd')
   \<and> fst (openPopup_js numStr luck rnd' lat lng (snd (openPopup_js numStr luck rnd lat lng h)))
        = fst (openPopup_js numStr luck rnd lat lng h)"
proof (intro conjI impI)
  assume a: "cacheState g (cacheKey i j) = None \<and> cacheState g' (cacheKey i j) = None"
  then have n: "cacheState g (cacheKey i j) = None" and n': "cacheState g' (cacheKey i j) = None"
    by simp_all
  show "fst (openPopup luck i j g) = fst (openPopup luck i j g')"
    by (simp add: openPopup_fresh [OF n] openPopup_fresh [OF n'])
  show "popupPointValue (fst (openPopup luck i j g)) = pointValue (initialRecord luck i j)"
    by (simp add: openPopup_fresh [OF n])
  show "popupCoinCount (fst (openPopup luck i j g)) = coinCount (initialRecord luck i j)"
    by (simp add: openPopup_fresh [OF n])
  show "cacheState (snd (openPopup luck i j g)) (cacheKey i j) = Some (initialRecord luck i j)"
    by (simp add: openPopup_fresh [OF n])
next
  assume a: "memento_getState (numStr lat @ '':'' @ numStr lng) (js_cacheStates h) = None
       \<and> memento_getState (numStr lat @ '':'' @ numStr lng) (js_cacheStates h') = None"
  then have n: "memento_getState (numStr lat @ '':'' @ numStr lng) (js_cacheStates h) = None"
    and n': "memento_getState (numStr lat @ '':'' @ numStr lng) (js_cacheStates h') = None"
    by simp_all
  show "js_pointValue (fst (openPopup_js numStr luck rnd lat lng h))
        = js_pointValue (fst (openPopup_js numStr luck rnd' lat lng h'))"
    by (simp add: openPopup_js_fresh [OF n] openPopup_js_fresh [OF n'] initialRecord_js_def)
  show "js_coinCount (fst (openPopup_js numStr luck rnd lat lng h)) = generateCoins rnd"
    by (simp add: openPopup_js_fresh [OF n] initialRecord_js_def)
  show "js_coinCount (fst (openPopup_js numStr luck rnd' lat lng h')) = generateCoins rnd'"
    by (simp add: openPopup_js_fresh [OF n'] initialRecord_js_def)
next
  show "fst (openPopup_js numStr luck rnd' lat lng (snd (openPopup_js numStr luck rnd lat lng h)))
        = fst (openPopup_js numStr luck rnd lat lng h)"
    by (rule openPopup_js_again)
qed

theorem initial_record_determinism_witness:
  "cacheState initial_game (cacheKey 0 0) = None
   \<and> cacheState (initial_game\<lparr>playerCoins := 3, playerLocation := (0, 0)\<rparr>) (cacheKey 0 0) = None
   \<and> fst (openPopup (\<lambda>k. 1 / 2) 0 0 initial_game)
       = fst (openPopup (\<lambda>k. 1 / 2) 0 0 (initial_game\<lparr>playerCoins := 3, playerLocation := (0, 0)\<rparr>))
   \<and> popupPointValue (fst (openPopup (\<lambda>k. 1 / 2) 0 0 initial_game)) = 50
   \<and> popupCoinCount (fst (openPopup (\<lambda>k. 1 / 2) 0 0 initial_game)) = 5
   \<and> memento_getState (show_int \<lfloor>0 :: real\<rfloor> @ '':'' @ show_int \<lfloor>0 :: real\<rfloor>) (js_cacheStates initial_game_js) = None
   \<and> memento_getState (show_int \<lfloor>0 :: real\<rfloor> @ '':'' @ show_int \<lfloor>0 :: real\<rfloor>)
        (js_cacheStates (initial_game_js\<lparr>js_playerCoins := 3\<rparr>)) = None
   \<and> js_pointValue (fst (openPopup_js (\<lambda>x. show_int \<lfloor>x\<rfloor>) (\<lambda>k. 1 / 2) 0 0 0 initial_game_js))
       = js_pointValue (fst (openPopup_js (\<lambda>x. show_int \<lfloor>x\<rfloor>) (\<lambda>k. 1 / 2) (1 / 2) 0 0
                               (initial_game_js\<lparr>js_playerCoins := 3\<rparr>)))
   \<and> js_coinCount (fst (openPopup_js (\<lambda>x. show_int \<lfloor>x\<rfloor>) (\<lambda>k. 1 / 2) 0 0 0 initial_game_js)) = 1
   \<and> js_coinCount (fst (openPopup_js (\<lambda>x. show_int \<lfloor>x\<rfloor>) (\<lambda>k. 1 / 2) (1 / 2) 0 0
                               (initial_game_js\<lparr>js_playerCoins := 3\<rparr>))) = 6"
proof -
  have h1: "cacheState initial_game (cacheKey 0 0) = None"
    and h2: "cacheState (initial_game\<lparr>playerCoins := 3, playerLocation := (0, 0)\<rparr>) (cacheKey 0 0) = None"
    by (simp_all add: initial_game_def)
  have h3: "memento_getState ((\<lambda>x. show_int \<lfloor>x\<rfloor>) (0 :: real) @ '':'' @ (\<lambda>x. show_int \<lfloor>x\<rfloor>) (0 :: real))
      (js_cacheStates initial_game_js) = None"
    and h4: "memento_getState ((\<lambda>x. show_int \<lfloor>x\<rfloor>) (0 :: real) @ '':'' @ (\<lambda>x. show_int \<lfloor>x\<rfloor>) (0 :: real))
      (js_cacheStates (initial_game_js\<lparr>js_playerCoins := 3\<rparr>)) = None"
    by (simp_all add: initial_game_js_def memento_getState_def)
  have v: "initialRecord (\<lambda>k. 1 / 2) 0 0 = \<lparr>pointValue = 50, coinCount = 5\<rparr>"
    by (simp add: initialRecord_def)
  have c: "generateCoins 0 = 1" "generateCoins (1 / 2) = 6"
    by (simp_all add: generateCoins_def)
  note t = initial_record_determinism
    [of initial_game 0 0 "initial_game\<lparr>playerCoins := 3, playerLocation := (0, 0)\<rparr>" "\<lambda>k. 1 / 2"
        "\<lambda>x. show_int \<lfloor>x\<rfloor>" 0 0 initial_game_js "initial_game_js\<lparr>js_playerCoins := 3\<rparr>" 0 "1 / 2"]
  from t h1 h2 have a1: "fst (openPopup (\<lambda>k. 1 / 2) 0 0 initial_game)
       = fst (openPopup (\<lambda>k. 1 / 2) 0 0 (initial_game\<lparr>playerCoins := 3, playerLocation := (0, 0)\<rparr>))"
    and a2: "popupPointValue (fst (openPopup (\<lambda>k. 1 / 2) 0 0 initial_game)) = pointValue (initialRecord (\<lambda>k. 1 / 2) 0 0)"
    and a3: "popupCoinCount (fst (openPopup (\<lambda>k. 1 / 2) 0 0 initial_game)) = coinCount (initialRecord (\<lambda>k. 1 / 2) 0 0)"
    by blast+
  from t h3 h4 have b1: "js_pointValue (fst (openPopup_js (\<lambda>x. show_int \<lfloor>x\<rfloor>) (\<lambda>k. 1 / 2) 0 0 0 initial_game_js))
       = js_pointValue (fst (openPopup_js (\<lambda>x. show_int \<lfloor>x\<rfloor>) (\<lambda>k. 1 / 2) (1 / 2) 0 0
                               (initial_game_js\<lparr>js_playerCoins := 3\<rparr>)))"
    and b2: "js_coinCount (fst (openPopup_js (\<lambda>x. show_int \<lfloor>x\<rfloor>) (\<lambda>k. 1 / 2) 0 0 0 initial_game_js)) = generateCoins 0"
    and b3: "js_coinCount (fst (openPopup_js (\<lambda>x. show_int \<lfloor>x\<rfloor>) (\<lambda>k. 1 / 2) (1 / 2) 0 0
                               (initial_game_js\<lparr>js_playerCoins := 3\<rparr>))) = generateCoins (1 / 2)"
    by blast+
  from a2 a3 v have a2': "popupPointValue (fst (openPopup (\<lambda>k. 1 / 2) 0 0 initial_game)) = 50"
    and a3': "popupCoinCount (fst (openPopup (\<lambda>k. 1 / 2) 0 0 initial_game)) = 5"
    by simp_all
  from b2 b3 c have b2': "js_coinCount (fst (openPopup_js (\<lambda>x. show_int \<lfloor>x\<rfloor>) (\<lambda>k. 1 / 2) 0 0 0 initial_game_js)) = 1"
    and b3': "js_coinCount (fst (openPopup_js (\<lambda>x. show_int \<lfloor>x\<rfloor>) (\<lambda>k. 1 / 2) (1 / 2) 0 0
                               (initial_game_js\<lparr>js_playerCoins := 3\<rparr>))) = 6"
    by simp_all
  from h3 h4 have h3': "memento_getState (show_int \<lfloor>0 :: real\<rfloor> @ '':'' @ show_int \<lfloor>0 :: real\<rfloor>) (js_cacheStates initial_game_js) = None"
    and h4': "memento_getState (show_int \<lfloor>0 :: real\<rfloor> @ '':'' @ show_int \<lfloor>0 :: real\<rfloor>)
        (js_cacheStates (initial_game_js\<lparr>js_playerCoins := 3\<rparr>)) = None"
    by simp_all
  show ?thesis
    by (intro conjI) (fact h1 h2 a1 a2' a3' h3' h4' b1 b2' b3')+
qed

text \<open>
  Claim C3 at the JavaScript variant's collect handler, which tests and adds the constant
  \<open>coinCount\<close> destructured when the popup was built. A cache opened with 5 coins and an
  empty wallet: the first click leaves the cache with 0 coins and the wallet with 5; the
  second click, on a cache whose \<open>coinCount\<close> is 0, adds 5 more to the wallet.
\<close>

theorem collect_js_stale_coinCount:
  "js_coinCount (fst (openPopup_js (\<lambda>x. show_int \<lfloor>x\<rfloor>) (\<lambda>k. 1 / 2) (2 / 5) 0 0 initial_game_js)) = 5
   \<and> memento_getState (show_int \<lfloor>0 :: real\<rfloor> @ '':'' @ show_int \<lfloor>0 :: real\<rfloor>)
        (js_cacheStates (fst (run_js (\<lambda>x. show_int \<lfloor>x\<rfloor>) (\<lambda>k. 1 / 2)
           [OpenPopup_js (2 / 5) 0 0] (initial_game_js, None))))
      = Some \<lparr>pointValue = 50, coinCount = 5\<rparr>
   \<and> js_playerCoins (fst (run_js (\<lambda>x. show_int \<lfloor>x\<rfloor>) (\<lambda>k. 1 / 2)
           [OpenPopup_js (2 / 5) 0 0, Collect_js] (initial_game_js, None))) = 5
   \<and> memento_getState (show_int \<lfloor>0 :: real\<rfloor> @ '':'' @ show_int \<lfloor>0 :: real\<rfloor>)
        (js_cacheStates (fst (run_js (\<lambda>x. show_int \<lfloor>x\<rfloor>) (\<lambda>k. 1 / 2)
           [OpenPopup_js (2 / 5) 0 0, Collect_js] (initial_game_js, None))))
      = Some \<lparr>pointValue = 50, coinCount = 0\<rparr>
   \<and> js_playerCoins (fst (run_js (\<lambda>x. show_int \<lfloor>x\<rfloor>) (\<lambda>k. 1 / 2)
           [OpenPopup_js (2 / 5) 0 0, Collect_js, Collect_js] (initial_game_js, None))) = 10
   \<and> memento_getState (show_int \<lfloor>0 :: real\<rfloor> @ '':'' @ show_int \<lfloor>0 :: real\<rfloor>)
        (js_cacheStates (fst (run_js (\<lambda>x. show_int \<lfloor>x\<rfloor>) (\<lambda>k. 1 / 2)
           [OpenPopup_js (2 / 5) 0 0, Collect_js, Collect_js] (initial_game_js, None))))
      = Some \<lparr>pointValue = 50, coinCount = 0\<rparr>"
  by (simp add: openPopup_js_def initial_game_js_def memento_getState_def memento_saveState_def
      initialRecord_js_def generateCoins_def collect_js_def Let_def)

text \<open>
  Claim C5 at the JavaScript variant's collect handler. A cache opened with one coin and an
  empty wallet: after the first click the cache holds no coin, so a further collect would
  take its counter below zero. The second click is not refused: the state changes, the
  wallet grows from 1 to 2 and the cache stays at 0.
\<close>

theorem collect_js_empty_cache_not_refused:
  "memento_getState (show_int \<lfloor>0 :: real\<rfloor> @ '':'' @ show_int \<lfloor>0 :: real\<rfloor>)
        (js_cacheStates (fst (run_js (\<lambda>x. show_int \<lfloor>x\<rfloor>) (\<lambda>k. 1 / 2)
           [OpenPopup_js 0 0 0, Collect_js] (initial_game_js, None))))
      = Some \<lparr>pointValue = 50, coinCount = 0\<rparr>
   \<and> js_playerCoins (fst (run_js (\<lambda>x. show_int \<lfloor>x\<rfloor>) (\<lambda>k. 1 / 2)
           [OpenPopup_js 0 0 0, Collect_js] (initial_game_js, None))) = 1
   \<and> step_js (\<lambda>x. show_int \<lfloor>x\<rfloor>) (\<lambda>k. 1 / 2) Collect_js
         (run_js (\<lambda>x. show_int \<lfloor>x\<rfloor>) (\<lambda>k. 1 / 2)
           [OpenPopup_js 0 0 0, Collect_js] (initial_game_js, None))
       \<noteq> run_js (\<lambda>x. show_int \<lfloor>x\<rfloor>) (\<lambda>k. 1 / 2)
           [OpenPopup_js 0 0 0, Collect_js] (initial_game_js, None)
   \<and> js_playerCoins (fst (step_js (\<lambda>x. show_int \<lfloor>x\<rfloor>) (\<lambda>k. 1 / 2) Collect_js
         (run_js (\<lambda>x. show_int \<lfloor>x\<rfloor>) (\<lambda>k. 1 / 2)
           [OpenPopup_js 0 0 0, Collect_js] (initial_game_js, None)))) = 2
   \<and> memento_getState (show_int \<lfloor>0 :: real\<rfloor> @ '':'' @ show_int \<lfloor>0 :: real\<rfloor>)
        (js_cacheStates (fst (step_js (\<lambda>x. show_int \<lfloor>x\<rfloor>) (\<lambda>k. 1 / 2) Collect_js
         (run_js (\<lambda>x. show_int \<lfloor>x\<rfloor>) (\<lambda>k. 1 / 2)
           [OpenPopup_js 0 0 0, Collect_js] (initial_game_js, None)))))
      = Some \<lparr>pointValue = 50, coinCount = 0\<rparr>"
  by (simp add: openPopup_js_def initial_game_js_def memento_getState_def memento_saveState_def
      initialRecord_js_def generateCoins_def collect_js_def Let_def)

section \<open>Scanning the neighbourhood\<close>

lemma for_le_fold: "for_le i hi body acc = fold body [i..hi] acc"
proof (induction i hi body acc rule: for_le.induct)
  case (1 i hi body acc)
  show ?case
  proof (cases "i \<le> hi")
    case True
    then have "[i..hi] = i # [i + 1..hi]" by (rule upto_rec1)
    with True 1 show ?thesis by (simp add: for_le.simps [of i])
  next
    case False
    then show ?thesis by (simp add: for_le.simps [of i])
  qed
qed

lemma for_lt_fold: "for_lt i hi body acc = fold body [i..hi - 1] acc"
proof (induction i hi body acc rule: for_lt.induct)
  case (1 i hi body acc)
  show ?case
  proof (cases "i < hi")
    case True
    then have "[i..hi - 1] = i # [i + 1..hi - 1]" by (intro upto_rec1) simp
    with True 1 show ?thesis by (simp add: for_lt.simps [of i])
  next
    case False
    then show ?thesis by (simp add: for_lt.simps [of i])
  qed
qed

lemma fold_spawn:
  "fold (\<lambda>j spawned. if Q j then spawned @ [f j] else spawned) js acc = acc @ map f (filter Q js)"
  by (induction js arbitrary: acc) simp_all

lemma fold_rows:
  "fold (\<lambda>i acc. acc @ row i) is acc = acc @ concat (map row is)"
  by (induction "is" arbitrary: acc) simp_all

lemma scan_rows:
  "fold (\<lambda>i. fold (\<lambda>j spawned. if Q i j then spawned @ [f i j] else spawned) js) is []
     = concat (map (\<lambda>i. map (f i) (filter (Q i) js)) is)"
proof -
  have "(\<lambda>i. fold (\<lambda>j spawned. if Q i j then spawned @ [f i j] else spawned) js)
      = (\<lambda>i acc. acc @ map (f i) (filter (Q i) js))"
    by (simp add: fold_spawn fun_eq_iff)
  then show ?thesis by (simp add: fold_rows)
qed

lemma distinct_rows:
  assumes "distinct is" and "distinct js"
  shows "distinct (concat (map (\<lambda>i. map (Pair i) (filter (Q i) js)) is))"
  using assms(1)
proof (induction "is")
  case Nil
  then show ?case by simp
next
  case (Cons i "is")
  have "distinct (map (Pair i) (filter (Q i) js))"
    using assms(2) by (simp add: distinct_map inj_on_def)
  with Cons show ?case by auto
qed

lemma scanWindow_eq:
  "scanWindow luck r pc =
     concat (map (\<lambda>i. map (Pair i)
        (filter (\<lambda>j. luck (show_int i @ '','' @ show_int j) < CACHE_SPAWN_PROBABILITY)
           [snd pc - r..snd pc + r])) [fst pc - r..fst pc + r])"
  unfolding scanWindow_def for_le_fold by (rule scan_rows)

lemma scan_example_eq:
  "scan_example luck =
     concat (map (\<lambda>i. map (Pair i)
        (filter (\<lambda>j. luck (show_int i @ '','' @ show_int j) < CACHE_SPAWN_PROBABILITY)
           [- NEIGHBORHOOD_SIZE..NEIGHBORHOOD_SIZE - 1])) [- NEIGHBORHOOD_SIZE..NEIGHBORHOOD_SIZE - 1])"
  unfolding scan_example_def for_lt_fold by (rule scan_rows)

lemma updateCaches_js_eq:
  "updateCaches_js numStr luck g =
     concat (map (\<lambda>i. map (scanPoint (js_location g) i)
        (filter (\<lambda>j. luck (numStr (fst (scanPoint (js_location g) i j)) @ '','' @
                            numStr (snd (scanPoint (js_location g) i j))) < CACHE_SPAWN_PROBABILITY)
           [- NEIGHBORHOOD_SIZE..NEIGHBORHOOD_SIZE - 1])) [- NEIGHBORHOOD_SIZE..NEIGHBORHOOD_SIZE - 1])"
proof -
  have "updateCaches_js numStr luck g =
    fold (\<lambda>i. fold (\<lambda>j spawned.
        if luck (numStr (fst (scanPoint (js_location g) i j)) @ '','' @
                 numStr (snd (scanPoint (js_location g) i j))) < CACHE_SPAWN_PROBABILITY
        then spawned @ [scanPoint (js_location g) i j] else spawned)
      [- NEIGHBORHOOD_SIZE..NEIGHBORHOOD_SIZE - 1]) [- NEIGHBORHOOD_SIZE..NEIGHBORHOOD_SIZE - 1] []"
    unfolding updateCaches_js_def for_lt_fold by (simp add: Let_def cong: if_cong)
  then show ?thesis by (simp only: scan_rows)
qed

lemma set_scanWindow:
  "(i, j) \<in> set (scanWindow luck r pc) \<longleftrightarrow>
     fst pc - r \<le> i \<and> i \<le> fst pc + r \<and> snd pc - r \<le> j \<and> j \<le> snd pc + r
     \<and> luck (show_int i @ '','' @ show_int j) < CACHE_SPAWN_PROBABILITY"
  by (auto simp: scanWindow_eq)

lemma distinct_scanWindow: "distinct (scanWindow luck r pc)"
  unfolding scanWindow_eq by (rule distinct_rows) simp_all

lemma set_scan_example:
  "(i, j) \<in> set (scan_example luck) \<longleftrightarrow>
     - NEIGHBORHOOD_SIZE \<le> i \<and> i < NEIGHBORHOOD_SIZE \<and> - NEIGHBORHOOD_SIZE \<le> j \<and> j < NEIGHBORHOOD_SIZE
     \<and> luck (show_int i @ '','' @ show_int j) < CACHE_SPAWN_PROBABILITY"
  by (auto simp: scan_example_eq)

lemma set_updateCaches_js:
  "pt \<in> set (updateCaches_js numStr luck g) \<longleftrightarrow>
     (\<exists>i j. - NEIGHBORHOOD_SIZE \<le> i \<and> i < NEIGHBORHOOD_SIZE
          \<and> - NEIGHBORHOOD_SIZE \<le> j \<and> j < NEIGHBORHOOD_SIZE
          \<and> pt = scanPoint (js_location g) i j)
     \<and> luck (numStr (fst pt) @ '','' @ numStr (snd pt)) < CACHE_SPAWN_PROBABILITY"
proof
  assume "pt \<in> set (updateCaches_js numStr luck g)"
  then obtain i j where "- NEIGHBORHOOD_SIZE \<le> i" "i \<le> NEIGHBORHOOD_SIZE - 1"
    "- NEIGHBORHOOD_SIZE \<le> j" "j \<le> NEIGHBORHOOD_SIZE - 1"
    "luck (numStr (fst (scanPoint (js_location g) i j)) @ '','' @
           numStr (snd (scanPoint (js_location g) i j))) < CACHE_SPAWN_PROBABILITY"
    "pt = scanPoint (js_location g) i j"
    unfolding updateCaches_js_eq by auto
  then show "(\<exists>i j. - NEIGHBORHOOD_SIZE \<le> i \<and> i < NEIGHBORHOOD_SIZE
          \<and> - NEIGHBORHOOD_SIZE \<le> j \<and> j < NEIGHBORHOOD_SIZE
          \<and> pt = scanPoint (js_location g) i j)
     \<and> luck (numStr (fst pt) @ '','' @ numStr (snd pt)) < CACHE_SPAWN_PROBABILITY"
    by (intro conjI exI [of _ i] exI [of _ j]) simp_all
next
  assume "(\<exists>i j. - NEIGHBORHOOD_SIZE \<le> i \<and> i < NEIGHBORHOOD_SIZE
          \<and> - NEIGHBORHOOD_SIZE \<le> j \<and> j < NEIGHBORHOOD_SIZE
          \<and> pt = scanPoint (js_location g) i j)
     \<and> luck (numStr (fst pt) @ '','' @ numStr (snd pt)) < CACHE_SPAWN_PROBABILITY"
  then obtain i j where "- NEIGHBORHOOD_SIZE \<le> i" "i < NEIGHBORHOOD_SIZE"
    "- NEIGHBORHOOD_SIZE \<le> j" "j < NEIGHBORHOOD_SIZE"
    "pt = scanPoint (js_location g) i j"
    "luck (numStr (fst pt) @ '','' @ numStr (snd pt)) < CACHE_SPAWN_PROBABILITY"
    by blast
  then show "pt \<in> set (updateCaches_js numStr luck g)"
    unfolding updateCaches_js_eq by auto
qed

text \<open>
  Claim C9, as stated, fails for the loops of \<open>example.ts\<close>: with an oracle that lets every
  cell pass, the cell \<open>(8, 0)\<close> lies in the inclusive window of radius 8 around \<open>(0, 0)\<close>
  and is not scanned.
\<close>

theorem scan_example_counterexample:
  "0 - NEIGHBORHOOD_SIZE \<le> 8 \<and> 8 \<le> 0 + NEIGHBORHOOD_SIZE
   \<and> 0 - NEIGHBORHOOD_SIZE \<le> 0 \<and> 0 \<le> 0 + NEIGHBORHOOD_SIZE
   \<and> (\<lambda>k. 0) (show_int 8 @ '','' @ show_int 0) < CACHE_SPAWN_PROBABILITY
   \<and> (8, 0) \<notin> set (scan_example (\<lambda>k. 0))"
  by (simp add: set_scan_example NEIGHBORHOOD_SIZE_def CACHE_SPAWN_PROBABILITY_def)

text \<open>
  Claim C9, amended. In \<open>main.ts\<close> the scan spawns, once each, exactly the cells of the
  square window around the player's cell, both ends included, that pass the existence
  check. The loops of \<open>example.ts\<close> cover the offsets from \<open>-8\<close> up to but excluding \<open>8\<close>
  around the origin; those of the JavaScript variant cover the same offsets and spawn the
  points at these offsets, in tiles, from the player's location.
\<close>

theorem scan_windows:
  "set (scanWindow luck r (ci, cj))
     = {(i, j). ci - r \<le> i \<and> i \<le> ci + r \<and> cj - r \<le> j \<and> j \<le> cj + r
           \<and> luck (show_int i @ '','' @ show_int j) < CACHE_SPAWN_PROBABILITY}
   \<and> distinct (scanWindow luck r (ci, cj))
   \<and> updateCaches luck g
     = scanWindow luck NEIGHBORHOOD_SIZE (latLngToCell (fst (playerLocation g)) (snd (playerLocation g)))
   \<and> set (scan_example luck)
     = {(i, j). - NEIGHBORHOOD_SIZE \<le> i \<and> i < NEIGHBORHOOD_SIZE
           \<and> - NEIGHBORHOOD_SIZE \<le> j \<and> j < NEIGHBORHOOD_SIZE
           \<and> luck (show_int i @ '','' @ show_int j) < CACHE_SPAWN_PROBABILITY}
   \<and> set (updateCaches_js numStr luck h)
     = {pt. (\<exists>i j. - NEIGHBORHOOD_SIZE \<le> i \<and> i < NEIGHBORHOOD_SIZE
               \<and> - NEIGHBORHOOD_SIZE \<le> j \<and> j < NEIGHBORHOOD_SIZE
               \<and> pt = scanPoint (js_location h) i j)
           \<and> luck (numStr (fst pt) @ '','' @ numStr (snd pt)) < CACHE_SPAWN_PROBABILITY}"
proof (intro conjI)
  show "set (scanWindow luck r (ci, cj))
     = {(i, j). ci - r \<le> i \<and> i \<le> ci + r \<and> cj - r \<le> j \<and> j \<le> cj + r
           \<and> luck (show_int i @ '','' @ show_int j) < CACHE_SPAWN_PROBABILITY}"
    using set_scanWindow [of _ _ luck r "(ci, cj)"] by auto
  show "distinct (scanWindow luck r (ci, cj))" by (rule distinct_scanWindow)
  show "updateCaches luck g
     = scanWindow luck NEIGHBORHOOD_SIZE (latLngToCell (fst (playerLocation g)) (snd (playerLocation g)))"
    by (simp add: updateCaches_def)
  show "set (scan_example luck)
     = {(i, j). - NEIGHBORHOOD_SIZE \<le> i \<and> i < NEIGHBORHOOD_SIZE
           \<and> - NEIGHBORHOOD_SIZE \<le> j \<and> j < NEIGHBORHOOD_SIZE
           \<and> luck (show_int i @ '','' @ show_int j) < CACHE_SPAWN_PROBABILITY}"
    using set_scan_example [of _ _ luck] by auto
  show "set (updateCaches_js numStr luck h)
     = {pt. (\<exists>i j. - NEIGHBORHOOD_SIZE \<le> i \<and> i < NEIGHBORHOOD_SIZE
               \<and> - NEIGHBORHOOD_SIZE \<le> j \<and> j < NEIGHBORHOOD_SIZE
               \<and> pt = scanPoint (js_location h) i j)
           \<and> luck (numStr (fst pt) @ '','' @ numStr (snd pt)) < CACHE_SPAWN_PROBABILITY}"
    using set_updateCaches_js [of _ numStr luck h] by blast
qed

lemma show_int_small: "show_int 0 = ''0''" "show_int 3 = ''3''"
  by (simp_all add: show_int_def digits.simps digit_char_def)

lemma cell_of_shifted:
  "fst (getCoordinate (/) Map.empty (fst (scanPoint (3 / 100000, 0) a b)) (snd (scanPoint (3 / 100000, 0) a b)))
     = \<lparr>coord_i = a, coord_j = b\<rparr>"
proof -
  have "(3 / 100000 + real_of_int a * (1 / 10000)) / (1 / 10000) = 3 / 10 + real_of_int a"
    by (simp add: field_simps)
  moreover have "\<lfloor>3 / 10 + real_of_int a\<rfloor> = a" by linarith
  moreover have "\<lfloor>real_of_int b\<rfloor> = b" by simp
  ultimately show ?thesis
    by (simp add: getCoordinate_def scanPoint_def cellSize_def TILE_DEGREES_def)
qed

lemma shifted_scan_misses_cell:
  "\<not> (\<exists>pt. pt \<in> set (updateCaches_js (\<lambda>x. show_int \<lfloor>x * 100000\<rfloor>) (\<lambda>k. if k = ''0,0'' then 0 else 1 / 2)
                      (initial_game_js\<lparr>js_location := (3 / 100000, 0)\<rparr>))
          \<and> fst (getCoordinate (/) Map.empty (fst pt) (snd pt)) = \<lparr>coord_i = 0, coord_j = 0\<rparr>)"
proof
  assume "\<exists>pt. pt \<in> set (updateCaches_js (\<lambda>x. show_int \<lfloor>x * 100000\<rfloor>) (\<lambda>k. if k = ''0,0'' then 0 else 1 / 2)
                      (initial_game_js\<lparr>js_location := (3 / 100000, 0)\<rparr>))
          \<and> fst (getCoordinate (/) Map.empty (fst pt) (snd pt)) = \<lparr>coord_i = 0, coord_j = 0\<rparr>"
  then obtain pt where m: "pt \<in> set (updateCaches_js (\<lambda>x. show_int \<lfloor>x * 100000\<rfloor>) (\<lambda>k. if k = ''0,0'' then 0 else 1 / 2)
                      (initial_game_js\<lparr>js_location := (3 / 100000, 0)\<rparr>))"
    and c: "fst (getCoordinate (/) Map.empty (fst pt) (snd pt)) = \<lparr>coord_i = 0, coord_j = 0\<rparr>"
    by blast
  from m obtain a b where "pt = scanPoint (js_location (initial_game_js\<lparr>js_location := (3 / 100000, 0)\<rparr>)) a b"
    and l: "(if show_int \<lfloor>fst pt * 100000\<rfloor> @ '','' @ show_int \<lfloor>snd pt * 100000\<rfloor> = ''0,0'' then 0 else 1 / 2)
          < CACHE_SPAWN_PROBABILITY"
    unfolding set_updateCaches_js by blast
  then have pt: "pt = scanPoint (3 / 100000, 0) a b" by simp
  from c pt cell_of_shifted [of a b] have "a = 0" "b = 0" by simp_all
  with pt have "pt = (3 / 100000, 0)" by (simp add: scanPoint_def)
  with l show False by (simp add: show_int_small CACHE_SPAWN_PROBABILITY_def)
qed

text \<open>
  Claim C2, as stated, fails in the JavaScript variant, whose key is made of the scanned
  point's coordinates. The oracle below accepts the key \<open>0,0\<close> only, and numbers are
  rendered as their count of \<open>1e-5\<close> degrees. With the player at \<open>(0, 0)\<close> the scan spawns
  a cache at \<open>(0, 0)\<close>, in cell \<open>(0, 0)\<close>; with the player at \<open>(0.00003, 0)\<close>, in the same
  cell, the scan looks at \<open>(0.00003, 0)\<close> instead and spawns no cache in that cell. Cells
  are the factory's, with the exact quotient for the language's.
\<close>

theorem exists_key_js_counterexample:
  "fst (getCoordinate (/) Map.empty 0 0) = \<lparr>coord_i = 0, coord_j = 0\<rparr>
   \<and> fst (getCoordinate (/) Map.empty (3 / 100000) 0) = \<lparr>coord_i = 0, coord_j = 0\<rparr>
   \<and> scanPoint (0, 0) 0 0 = (0, 0)
   \<and> scanPoint (3 / 100000, 0) 0 0 = (3 / 100000, 0)
   \<and> (0, 0) \<in> set (updateCaches_js (\<lambda>x. show_int \<lfloor>x * 100000\<rfloor>) (\<lambda>k. if k = ''0,0'' then 0 else 1 / 2)
                      (initial_game_js\<lparr>js_location := (0, 0)\<rparr>))
   \<and> (3 / 100000, 0) \<notin> set (updateCaches_js (\<lambda>x. show_int \<lfloor>x * 100000\<rfloor>) (\<lambda>k. if k = ''0,0'' then 0 else 1 / 2)
                      (initial_game_js\<lparr>js_location := (3 / 100000, 0)\<rparr>))
   \<and> \<not> (\<exists>pt. pt \<in> set (updateCaches_js (\<lambda>x. show_int \<lfloor>x * 100000\<rfloor>) (\<lambda>k. if k = ''0,0'' then 0 else 1 / 2)
                      (initial_game_js\<lparr>js_location := (3 / 100000, 0)\<rparr>))
          \<and> fst (getCoordinate (/) Map.empty (fst pt) (snd pt)) = \<lparr>coord_i = 0, coord_j = 0\<rparr>)"
proof (intro conjI)
  show "\<not> (\<exists>pt. pt \<in> set (updateCaches_js (\<lambda>x. show_int \<lfloor>x * 100000\<rfloor>) (\<lambda>k. if k = ''0,0'' then 0 else 1 / 2)
                      (initial_game_js\<lparr>js_location := (3 / 100000, 0)\<rparr>))
          \<and> fst (getCoordinate (/) Map.empty (fst pt) (snd pt)) = \<lparr>coord_i = 0, coord_j = 0\<rparr>)"
    by (rule shifted_scan_misses_cell)
  show "fst (getCoordinate (/) Map.empty 0 0) = \<lparr>coord_i = 0, coord_j = 0\<rparr>"
    by (simp add: getCoordinate_def cellSize_def)
  show "fst (getCoordinate (/) Map.empty (3 / 100000) 0) = \<lparr>coord_i = 0, coord_j = 0\<rparr>"
    by (simp add: getCoordinate_def cellSize_def)
  show "scanPoint (0, 0) 0 0 = (0, 0)" by (simp add: scanPoint_def)
  show "scanPoint (3 / 100000, 0) 0 0 = (3 / 100000, 0)" by (simp add: scanPoint_def)
  have "scanPoint (0, 0) 0 0 = (0, 0)" by (simp add: scanPoint_def)
  then have "\<exists>i j. - NEIGHBORHOOD_SIZE \<le> i \<and> i < NEIGHBORHOOD_SIZE
          \<and> - NEIGHBORHOOD_SIZE \<le> j \<and> j < NEIGHBORHOOD_SIZE \<and> (0, 0) = scanPoint (0, 0) i j"
    by (intro exI [of _ 0]) (simp add: NEIGHBORHOOD_SIZE_def)
  then show "(0, 0) \<in> set (updateCaches_js (\<lambda>x. show_int \<lfloor>x * 100000\<rfloor>) (\<lambda>k. if k = ''0,0'' then 0 else 1 / 2)
                      (initial_game_js\<lparr>js_location := (0, 0)\<rparr>))"
    by (simp add: set_updateCaches_js show_int_small CACHE_SPAWN_PROBABILITY_def)
  show "(3 / 100000, 0) \<notin> set (updateCaches_js (\<lambda>x. show_int \<lfloor>x * 100000\<rfloor>) (\<lambda>k. if k = ''0,0'' then 0 else 1 / 2)
                      (initial_game_js\<lparr>js_location := (3 / 100000, 0)\<rparr>))"
    by (simp add: set_updateCaches_js show_int_small CACHE_SPAWN_PROBABILITY_def)
qed

text \<open>
  Claim C2, amended. In \<open>main.ts\<close> a cell \<open>(i, j)\<close> of the window gets a cache exactly when
  \<open>luck([i, j].toString())\<close> is below the spawn probability; the key holds the cell's
  indices only, so a cell that is in the window before and after the player moves gets the
  same decision. In the JavaScript variant a scanned point gets a cache exactly when the
  oracle at the key made of the point's own coordinates is below the spawn probability.
\<close>

theorem existence_keys:
  "((i, j) \<in> set (updateCaches luck g) \<longleftrightarrow>
      fst (latLngToCell (fst (playerLocation g)) (snd (playerLocation g))) - NEIGHBORHOOD_SIZE \<le> i
      \<and> i \<le> fst (latLngToCell (fst (playerLocation g)) (snd (playerLocation g))) + NEIGHBORHOOD_SIZE
      \<and> snd (latLngToCell (fst (playerLocation g)) (snd (playerLocation g))) - NEIGHBORHOOD_SIZE \<le> j
      \<and> j \<le> snd (latLngToCell (fst (playerLocation g)) (snd (playerLocation g))) + NEIGHBORHOOD_SIZE
      \<and> luck (show_int i @ '','' @ show_int j) < CACHE_SPAWN_PROBABILITY)
   \<and> (fst (latLngToCell (fst (playerLocation g)) (snd (playerLocation g))) - NEIGHBORHOOD_SIZE \<le> i
      \<and> i \<le> fst (latLngToCell (fst (playerLocation g)) (snd (playerLocation g))) + NEIGHBORHOOD_SIZE
      \<and> snd (latLngToCell (fst (playerLocation g)) (snd (playerLocation g))) - NEIGHBORHOOD_SIZE \<le> j
      \<and> j \<le> snd (latLngToCell (fst (playerLocation g)) (snd (playerLocation g))) + NEIGHBORHOOD_SIZE
      \<and> fst (latLngToCell (fst (playerLocation g) + latOffset) (snd (playerLocation g) + lngOffset)) - NEIGHBORHOOD_SIZE \<le> i
      \<and> i \<le> fst (latLngToCell (fst (playerLocation g) + latOffset) (snd (playerLocation g) + lngOffset)) + NEIGHBORHOOD_SIZE
      \<and> snd (latLngToCell (fst (playerLocation g) + latOffset) (snd (playerLocation g) + lngOffset)) - NEIGHBORHOOD_SIZE \<le> j
      \<and> j \<le> snd (latLngToCell (fst (playerLocation g) + latOffset) (snd (playerLocation g) + lngOffset)) + NEIGHBORHOOD_SIZE
      \<longrightarrow> ((i, j) \<in> set (snd (movePlayer luck latOffset lngOffset g)) \<longleftrightarrow> (i, j) \<in> set (updateCaches luck g)))
   \<and> (pt \<in> set (updateCaches_js numStr luck' h) \<longleftrightarrow>
        (\<exists>a b. - NEIGHBORHOOD_SIZE \<le> a \<and> a < NEIGHBORHOOD_SIZE
             \<and> - NEIGHBORHOOD_SIZE \<le> b \<and> b < NEIGHBORHOOD_SIZE
             \<and> pt = scanPoint (js_location h) a b)
        \<and> luck' (numStr (fst pt) @ '','' @ numStr (snd pt)) < CACHE_SPAWN_PROBABILITY)"
proof (intro conjI impI)
  show "pt \<in> set (updateCaches_js numStr luck' h) \<longleftrightarrow>
        (\<exists>a b. - NEIGHBORHOOD_SIZE \<le> a \<and> a < NEIGHBORHOOD_SIZE
             \<and> - NEIGHBORHOOD_SIZE \<le> b \<and> b < NEIGHBORHOOD_SIZE
             \<and> pt = scanPoint (js_location h) a b)
        \<and> luck' (numStr (fst pt) @ '','' @ numStr (snd pt)) < CACHE_SPAWN_PROBABILITY"
    by (rule set_updateCaches_js)
qed (simp_all add: updateCaches_def movePlayer_def Let_def set_scanWindow)

theorem existence_keys_witness:
  "fst (latLngToCell 0 0) - NEIGHBORHOOD_SIZE \<le> 1 \<and> 1 \<le> fst (latLngToCell 0 0) + NEIGHBORHOOD_SIZE
   \<and> snd (latLngToCell 0 0) - NEIGHBORHOOD_SIZE \<le> 0 \<and> 0 \<le> snd (latLngToCell 0 0) + NEIGHBORHOOD_SIZE
   \<and> fst (latLngToCell (0 + TILE_DEGREES) (0 + 0)) - NEIGHBORHOOD_SIZE \<le> 1
   \<and> 1 \<le> fst (latLngToCell (0 + TILE_DEGREES) (0 + 0)) + NEIGHBORHOOD_SIZE
   \<and> snd (latLngToCell (0 + TILE_DEGREES) (0 + 0)) - NEIGHBORHOOD_SIZE \<le> 0
   \<and> 0 \<le> snd (latLngToCell (0 + TILE_DEGREES) (0 + 0)) + NEIGHBORHOOD_SIZE
   \<and> ((1, 0) \<in> set (snd (movePlayer (\<lambda>k. 0) TILE_DEGREES 0 (initial_game\<lparr>playerLocation := (0, 0)\<rparr>)))
        \<longleftrightarrow> (1, 0) \<in> set (updateCaches (\<lambda>k. 0) (initial_game\<lparr>playerLocation := (0, 0)\<rparr>)))
   \<and> (1, 0) \<in> set (updateCaches (\<lambda>k. 0) (initial_game\<lparr>playerLocation := (0, 0)\<rparr>))"
proof -
  have c: "latLngToCell 0 0 = (0, 0)" "latLngToCell (0 + TILE_DEGREES) (0 + 0) = (1, 0)"
    by (simp_all add: latLngToCell_def TILE_DEGREES_def)
  note t = existence_keys [of 1 0 "\<lambda>k. 0" "initial_game\<lparr>playerLocation := (0, 0)\<rparr>" TILE_DEGREES 0]
  from t c show ?thesis
    by (simp add: NEIGHBORHOOD_SIZE_def CACHE_SPAWN_PROBABILITY_def)
qed

section \<open>Saving and loading\<close>

lemma saveState_new_key:
  "key \<notin> fst ` set cacheStates \<Longrightarrow> memento_saveState key st cacheStates = cacheStates @ [(key, st)]"
  unfolding memento_saveState_def by (induction cacheStates) auto

lemma restore_entries:
  "distinct (map fst (acc @ entries)) \<Longrightarrow>
     fold (\<lambda>(key, val). memento_saveState key val) entries acc = acc @ entries"
proof (induction entries arbitrary: acc)
  case Nil
  then show ?case by simp
next
  case (Cons e entries)
  obtain key val where e: "e = (key, val)" by (cases e)
  from Cons.prems e have "key \<notin> fst ` set acc" by auto
  then have s: "memento_saveState key val acc = acc @ [(key, val)]" by (rule saveState_new_key)
  from Cons.prems e have "distinct (map fst ((acc @ [(key, val)]) @ entries))" by simp
  from Cons.IH [OF this] e s show ?case by simp
qed

lemma saveState_distinct:
  "distinct (map fst cacheStates) \<Longrightarrow> distinct (map fst (memento_saveState key st cacheStates))"
  unfolding memento_saveState_def by (rule distinct_update)

lemma step_js_distinct:
  assumes "distinct (map fst (js_cacheStates g))"
  shows "distinct (map fst (js_cacheStates (fst (step_js numStr luck e (g, cur)))))"
proof (cases e)
  case (OpenPopup_js rnd lat lng)
  with assms show ?thesis
    by (simp add: openPopup_js_def Let_def saveState_distinct split: option.splits)
next
  case Collect_js
  with assms show ?thesis
    by (cases cur) (simp_all add: collect_js_def Let_def saveState_distinct)
next
  case Deposit_js
  with assms show ?thesis
    by (cases cur) (simp_all add: deposit_js_def Let_def saveState_distinct)
qed

lemma run_js_distinct:
  assumes "distinct (map fst (js_cacheStates g))"
  shows "distinct (map fst (js_cacheStates (fst (run_js numStr luck es (g, cur)))))"
  using assms
proof (induction es arbitrary: g cur)
  case Nil
  then show ?case by simp
next
  case (Cons e es)
  obtain g1 cur1 where s: "step_js numStr luck e (g, cur) = (g1, cur1)"
    by (cases "step_js numStr luck e (g, cur)")
  with step_js_distinct [OF Cons.prems, of numStr luck e cur] have "distinct (map fst (js_cacheStates g1))"
    by simp
  from Cons.IH [OF this, of cur1] s show ?case by simp
qed

lemma load_save:
  assumes "distinct (map fst (js_cacheStates g))"
  shows "loadState (saveState g) g0 = Inr g"
proof -
  from assms have "fold (\<lambda>(key, val). memento_saveState key val) (js_cacheStates g) [] = js_cacheStates g"
    using restore_entries [of "[]" "js_cacheStates g"] by simp
  then show ?thesis
    by (simp add: loadState_def saveState_def memento_clearStates_def)
qed

text \<open>
  Claim C6. \<open>loadState\<close> applied to what \<open>saveState\<close> stored gives back the location, the
  points, the coins, the movement history and the store's entries, in their order,
  whatever the state was before loading. The store's keys are distinct, as the keys of a
  \<open>Map\<close> are; every state reached by opening popups and clicking has such a store.
\<close>

theorem load_save_roundtrip:
  "(distinct (map fst (js_cacheStates g)) \<longrightarrow> loadState (saveState g) g0 = Inr g)
   \<and> loadState (saveState (fst (run_js numStr luck es (initial_game_js, None)))) g0
       = Inr (fst (run_js numStr luck es (initial_game_js, None)))"
proof (intro conjI impI)
  assume "distinct (map fst (js_cacheStates g))"
  then show "loadState (saveState g) g0 = Inr g" by (rule load_save)
next
  have "distinct (map fst (js_cacheStates initial_game_js))" by (simp add: initial_game_js_def)
  then have "distinct (map fst (js_cacheStates (fst (run_js numStr luck es (initial_game_js, None)))))"
    by (rule run_js_distinct)
  then show "loadState (saveState (fst (run_js numStr luck es (initial_game_js, None)))) g0
       = Inr (fst (run_js numStr luck es (initial_game_js, None)))"
    by (rule load_save)
qed

theorem load_save_roundtrip_witness:
  "distinct (map fst [(''36.9895:-122.0627'', \<lparr>pointValue = 42, coinCount = 0\<rparr>),
                      (''-0.0001:0.0002'', \<lparr>pointValue = 7, coinCount = 13\<rparr>)])
   \<and> loadState (saveState \<lparr>js_location = (369895 / 10000, - (1220627 / 10000)), js_playerPoints = 84,
                             js_playerCoins = 5,
                             js_cacheStates = [(''36.9895:-122.0627'', \<lparr>pointValue = 42, coinCount = 0\<rparr>),
                                               (''-0.0001:0.0002'', \<lparr>pointValue = 7, coinCount = 13\<rparr>)],
                             js_movementHistory = [(369894 / 10000, - (1220627 / 10000)),
                                                   (369895 / 10000, - (1220627 / 10000))]\<rparr>)
        initial_game_js
      = Inr \<lparr>js_location = (369895 / 10000, - (1220627 / 10000)), js_playerPoints = 84,
             js_playerCoins = 5,
             js_cacheStates = [(''36.9895:-122.0627'', \<lparr>pointValue = 42, coinCount = 0\<rparr>),
                               (''-0.0001:0.0002'', \<lparr>pointValue = 7, coinCount = 13\<rparr>)],
             js_movementHistory = [(369894 / 10000, - (1220627 / 10000)),
                                   (369895 / 10000, - (1220627 / 10000))]\<rparr>
   \<and> distinct (map fst (js_cacheStates initial_game_js))
   \<and> loadState (saveState initial_game_js) (initial_game_js\<lparr>js_playerCoins := 9\<rparr>) = Inr initial_game_js"
proof -
  have d: "distinct (map fst [(''36.9895:-122.0627'', \<lparr>pointValue = 42, coinCount = 0\<rparr>),
                      (''-0.0001:0.0002'', \<lparr>pointValue = 7, coinCount = (13 :: int)\<rparr>)])"
    by simp
  have d0: "distinct (map fst (js_cacheStates initial_game_js))"
    by (simp add: initial_game_js_def)
  from d have d': "distinct (map fst (js_cacheStates
      \<lparr>js_location = (369895 / 10000, - (1220627 / 10000)), js_playerPoints = 84,
                             js_playerCoins = 5,
                             js_cacheStates = [(''36.9895:-122.0627'', \<lparr>pointValue = 42, coinCount = 0\<rparr>),
                                               (''-0.0001:0.0002'', \<lparr>pointValue = 7, coinCount = 13\<rparr>)],
                             js_movementHistory = [(369894 / 10000, - (1220627 / 10000)),
                                                   (369895 / 10000, - (1220627 / 10000))]\<rparr>))"
    by simp
  from load_save_roundtrip [of _ initial_game_js] d'
  have r: "loadState (saveState \<lparr>js_location = (369895 / 10000, - (1220627 / 10000)), js_playerPoints = 84,
                             js_playerCoins = 5,
                             js_cacheStates = [(''36.9895:-122.0627'', \<lparr>pointValue = 42, coinCount = 0\<rparr>),
                                               (''-0.0001:0.0002'', \<lparr>pointValue = 7, coinCount = 13\<rparr>)],
                             js_movementHistory = [(369894 / 10000, - (1220627 / 10000)),
                                                   (369895 / 10000, - (1220627 / 10000))]\<rparr>)
        initial_game_js
      = Inr \<lparr>js_location = (369895 / 10000, - (1220627 / 10000)), js_playerPoints = 84,
             js_playerCoins = 5,
             js_cacheStates = [(''36.9895:-122.0627'', \<lparr>pointValue = 42, coinCount = 0\<rparr>),
                               (''-0.0001:0.0002'', \<lparr>pointValue = 7, coinCount = 13\<rparr>)],
             js_movementHistory = [(369894 / 10000, - (1220627 / 10000)),
                                   (369895 / 10000, - (1220627 / 10000))]\<rparr>"
    by blast
  from load_save_roundtrip [of initial_game_js "initial_game_js\<lparr>js_playerCoins := 9\<rparr>"] d0
  have r0: "loadState (saveState initial_game_js) (initial_game_js\<lparr>js_playerCoins := 9\<rparr>) = Inr initial_game_js"
    by blast
  from d r d0 r0 show ?thesis by blast
qed

text \<open>
  Claim C7, as stated, fails: a blob without the field \<open>cacheStates\<close> is accepted.
  \<open>loadState\<close> returns normally, with the other fields restored and the store emptied.
\<close>

theorem loadState_accepts_missing_cacheStates:
  "loadState (Parsed \<lparr>blob_playerLocation = Some (1, 2), blob_playerPoints = 3, blob_playerCoins = 4,
                       blob_cacheStates = None, blob_movementHistory = Some []\<rparr>)
      (initial_game_js\<lparr>js_cacheStates := [(''0:0'', \<lparr>pointValue = 50, coinCount = 5\<rparr>)]\<rparr>)
     = Inr \<lparr>js_location = (1, 2), js_playerPoints = 3, js_playerCoins = 4,
            js_cacheStates = [], js_movementHistory = []\<rparr>"
  by (simp add: loadState_def initial_game_js_def memento_clearStates_def)

text \<open>
  Claim C7, amended. A blob without \<open>cacheStates\<close> but with a location and a history is
  accepted: the session is restored and the store is left empty. A blob without
  \<open>playerLocation\<close>, or with a location and without \<open>movementHistory\<close>, makes \<open>loadState\<close>
  raise a \<open>TypeError\<close>, and a text that does not parse makes it raise a \<open>SyntaxError\<close>;
  nothing catches either. An empty slot leaves the state as it is.
\<close>

theorem loadState_malformed:
  "(blob_playerLocation b = Some loc \<and> blob_cacheStates b = None \<and> blob_movementHistory b = Some history \<longrightarrow>
      loadState (Parsed b) g
        = Inr \<lparr>js_location = loc, js_playerPoints = blob_playerPoints b,
               js_playerCoins = blob_playerCoins b, js_cacheStates = [],
               js_movementHistory = history\<rparr>)
   \<and> (blob_playerLocation b1 = None \<longrightarrow> loadState (Parsed b1) g = Inl TypeError)
   \<and> (blob_playerLocation b2 = Some loc2 \<and> blob_movementHistory b2 = None \<longrightarrow>
        loadState (Parsed b2) g = Inl TypeError)
   \<and> loadState Unparsable g = Inl SyntaxError
   \<and> loadState NoItem g = Inr g"
  by (cases g) (simp add: loadState_def memento_clearStates_def)

theorem loadState_malformed_witness:
  "loadState (Parsed \<lparr>blob_playerLocation = Some (1, 2), blob_playerPoints = 3, blob_playerCoins = 4,
                       blob_cacheStates = None, blob_movementHistory = Some [(1, 2)]\<rparr>) initial_game_js
     = Inr \<lparr>js_location = (1, 2), js_playerPoints = 3, js_playerCoins = 4,
            js_cacheStates = [], js_movementHistory = [(1, 2)]\<rparr>
   \<and> loadState (Parsed \<lparr>blob_playerLocation = None, blob_playerPoints = 3, blob_playerCoins = 4,
                       blob_cacheStates = Some [], blob_movementHistory = Some []\<rparr>) initial_game_js
     = Inl TypeError
   \<and> loadState (Parsed \<lparr>blob_playerLocation = Some (1, 2), blob_playerPoints = 3, blob_playerCoins = 4,
                       blob_cacheStates = Some [], blob_movementHistory = None\<rparr>) initial_game_js
     = Inl TypeError"
  using loadState_malformed
    [of "\<lparr>blob_playerLocation = Some (1, 2), blob_playerPoints = 3, blob_playerCoins = 4,
                       blob_cacheStates = None, blob_movementHistory = Some [(1, 2)]\<rparr>"
        "(1, 2)" "[(1, 2)]" initial_game_js
        "\<lparr>blob_playerLocation = None, blob_playerPoints = 3, blob_playerCoins = 4,
                       blob_cacheStates = Some [], blob_movementHistory = Some []\<rparr>"
        "\<lparr>blob_playerLocation = Some (1, 2), blob_playerPoints = 3, blob_playerCoins = 4,
                       blob_cacheStates = Some [], blob_movementHistory = None\<rparr>"
        "(1, 2)"]
  by simp

end
